theory Spec2Isabelle
  imports
    Complex_Main
    "HOL-Library.Word"
    "HOL-Library.Char_ord"
    "HOL-Library.List_Lexorder"
begin

section \<open>Go strings and the library functions the client calls\<close>

text \<open>
  A Go string is a sequence of bytes; \<^typ>\<open>string\<close> (a list of 8-bit characters) is the
  same thing. Go compares strings bytewise and lexicographically, which is the order
  that the character and list orderings imported above give to \<^typ>\<open>string\<close>.
\<close>

subsection \<open>strings.Join\<close>

fun Join :: "string list \<Rightarrow> string \<Rightarrow> string" where
  "Join [] sep = []"
| "Join [x] sep = x"
| "Join (x # y # ys) sep = x @ sep @ Join (y # ys) sep"

subsection \<open>unicode/utf8 and unicode.IsSpace\<close>

definition RuneError :: nat where
  "RuneError = 0xFFFD"

text \<open>
  \<open>utf8.DecodeRuneInString\<close>: the first rune of the string and its width in bytes.
  The lead byte fixes the width and the range accepted for the second byte (Go's
  tables \<open>first\<close> and \<open>acceptRanges\<close>); every malformed or truncated sequence is
  \<open>(RuneError, 1)\<close>, the empty string is \<open>(RuneError, 0)\<close>.
\<close>

definition DecodeRuneInString :: "string \<Rightarrow> nat \<times> nat" where
  "DecodeRuneInString s =
     (case s of
        [] \<Rightarrow> (RuneError, 0)
      | c0 # _ \<Rightarrow>
          let s0 = (of_char c0 :: nat) in
          if s0 < 0x80 then (s0, 1)
          else if s0 < 0xC2 \<or> 0xF4 < s0 then (RuneError, 1)
          else
            let sz = (if s0 < 0xE0 then 2 else if s0 < 0xF0 then 3 else (4::nat));
                lo = (if s0 = 0xE0 then 0xA0 else if s0 = 0xF0 then 0x90 else (0x80::nat));
                hi = (if s0 = 0xED then 0x9F else if s0 = 0xF4 then 0x8F else (0xBF::nat))
            in
            if length s < sz then (RuneError, 1)
            else
              let s1 = (of_char (s ! 1) :: nat) in
              if s1 < lo \<or> hi < s1 then (RuneError, 1)
              else if sz \<le> 2 then ((s0 mod 32) * 64 + s1 mod 64, 2)
              else
                let s2 = (of_char (s ! 2) :: nat) in
                if s2 < 0x80 \<or> 0xBF < s2 then (RuneError, 1)
                else if sz \<le> 3 then ((s0 mod 16) * 4096 + (s1 mod 64) * 64 + s2 mod 64, 3)
                else
                  let s3 = (of_char (s ! 3) :: nat) in
                  if s3 < 0x80 \<or> 0xBF < s3 then (RuneError, 1)
                  else ((s0 mod 8) * 262144 + (s1 mod 64) * 4096 + (s2 mod 64) * 64
                          + s3 mod 64, 4))"

definition RuneStart :: "char \<Rightarrow> bool" where
  "RuneStart c = (\<not> (0x80 \<le> (of_char c :: nat) \<and> (of_char c :: nat) < 0xC0))"

text \<open>
  The backwards scan of \<open>utf8.DecodeLastRuneInString\<close>:
  \<^verbatim>\<open>for start--; start >= lim; start-- { if RuneStart(s[start]) { break } }\<close>
  entered here after the decrement, with \<open>start\<close> and the limit as Go's signed ints.
\<close>

function scan_back :: "string \<Rightarrow> int \<Rightarrow> int \<Rightarrow> int" where
  "scan_back s start lm =
     (if start \<ge> lm \<and> start \<ge> 0
      then (if RuneStart (s ! nat start) then start else scan_back s (start - 1) lm)
      else start)"
  by pat_completeness auto
termination
  by (relation "measure (\<lambda>(s, start, lm). nat (start + 1))") auto

declare scan_back.simps [simp del]

definition DecodeLastRuneInString :: "string \<Rightarrow> nat \<times> nat" where
  "DecodeLastRuneInString s =
     (let e = int (length s) in
      if e = 0 then (RuneError, 0)
      else
        let r = (of_char (s ! nat (e - 1)) :: nat) in
        if r < 0x80 then (r, 1)
        else
          let lm = max 0 (e - 4);
              start0 = scan_back s (e - 2) lm;
              start = (if start0 < 0 then 0 else start0);
              (r, sz) = DecodeRuneInString (drop (nat start) s)
          in if start + int sz \<noteq> e then (RuneError, 1) else (r, sz))"

text \<open>\<open>unicode.IsSpace\<close>: the Latin-1 cases of the switch, then the White_Space table.\<close>

definition IsSpace :: "nat \<Rightarrow> bool" where
  "IsSpace r =
     (if r \<le> 0xFF
      then r = 0x09 \<or> r = 0x0A \<or> r = 0x0B \<or> r = 0x0C \<or> r = 0x0D \<or> r = 0x20
           \<or> r = 0x85 \<or> r = 0xA0
      else r = 0x1680 \<or> (0x2000 \<le> r \<and> r \<le> 0x200A) \<or> r = 0x2028 \<or> r = 0x2029
           \<or> r = 0x202F \<or> r = 0x205F \<or> r = 0x3000)"

subsection \<open>strings.TrimSpace\<close>

text \<open>
  \<open>strings.TrimLeftFunc\<close> drops runes from the front while the predicate holds,
  \<open>strings.TrimRightFunc\<close> from the back; \<open>strings.TrimSpace\<close> is both with
  \<open>unicode.IsSpace\<close> (its ASCII fast path is the same scan on one-byte runes).
\<close>

function TrimLeftFunc :: "string \<Rightarrow> (nat \<Rightarrow> bool) \<Rightarrow> string" where
  "TrimLeftFunc s f =
     (if s = [] then []
      else let (r, n) = DecodeRuneInString s
           in if f r then TrimLeftFunc (drop n s) f else s)"
  by pat_completeness auto
termination
proof (relation "measure (\<lambda>(s, f). length s)")
  fix s :: string and f :: "nat \<Rightarrow> bool" and x :: "nat \<times> nat" and r n :: nat
  assume "s \<noteq> []" and "x = DecodeRuneInString s" and "(r, n) = x"
  then have "0 < n"
    by (auto simp: DecodeRuneInString_def Let_def split: list.splits if_splits)
  with \<open>s \<noteq> []\<close> show "((drop n s, f), (s, f)) \<in> measure (\<lambda>(s, f). length s)"
    by simp
qed simp

declare TrimLeftFunc.simps [simp del]

function TrimRightFunc :: "string \<Rightarrow> (nat \<Rightarrow> bool) \<Rightarrow> string" where
  "TrimRightFunc s f =
     (if s = [] then []
      else let (r, n) = DecodeLastRuneInString s
           in if f r then TrimRightFunc (take (length s - n) s) f else s)"
  by pat_completeness auto
termination
proof (relation "measure (\<lambda>(s, f). length s)")
  fix s :: string and f :: "nat \<Rightarrow> bool" and x :: "nat \<times> nat" and r n :: nat
  assume ne: "s \<noteq> []" and dec: "x = DecodeLastRuneInString s" "(r, n) = x"
  have scan_le: "scan_back t a l \<le> a" for t a l
    by (induction t a l rule: scan_back.induct) (subst scan_back.simps, auto)
  have "scan_back s (int (length s) - 2) (max 0 (int (length s) - 4)) < int (length s)"
    using scan_le [of s "int (length s) - 2" "max 0 (int (length s) - 4)"] by simp
  with ne dec have "0 < n"
    by (auto simp: DecodeLastRuneInString_def Let_def split: if_splits prod.splits)
  with ne show "((take (length s - n) s, f), (s, f)) \<in> measure (\<lambda>(s, f). length s)"
    by simp
qed simp

declare TrimRightFunc.simps [simp del]

definition TrimFunc :: "string \<Rightarrow> (nat \<Rightarrow> bool) \<Rightarrow> string" where
  "TrimFunc s f = TrimRightFunc (TrimLeftFunc s f) f"

definition TrimSpace :: "string \<Rightarrow> string" where
  "TrimSpace s = TrimFunc s IsSpace"

subsection \<open>net/url: QueryEscape and Values\<close>

definition upperhex :: "nat \<Rightarrow> char" where
  "upperhex n = ''0123456789ABCDEF'' ! n"

text \<open>
  \<open>shouldEscape(c, encodeQueryComponent)\<close>: letters, digits and the four marks
  \<open>- _ . ~\<close> are left alone; every other byte, the reserved characters included, is
  escaped.
\<close>

definition shouldEscape :: "char \<Rightarrow> bool" where
  "shouldEscape c =
     (let n = (of_char c :: nat) in
      \<not> ((0x61 \<le> n \<and> n \<le> 0x7A) \<or> (0x41 \<le> n \<and> n \<le> 0x5A) \<or> (0x30 \<le> n \<and> n \<le> 0x39)
         \<or> c = CHR ''-'' \<or> c = CHR ''_'' \<or> c = CHR ''.'' \<or> c = CHR ''~''))"

definition escape_byte :: "char \<Rightarrow> string" where
  "escape_byte c =
     (if c = CHR '' '' then ''+''
      else if shouldEscape c
        then [CHR ''%'', upperhex (of_char c div 16), upperhex (of_char c mod 16)]
      else [c])"

definition QueryEscape :: "string \<Rightarrow> string" where
  "QueryEscape s = concat (map escape_byte s)"

text \<open>
  \<open>url.Values\<close> is \<open>map[string][]string\<close>. It is kept as an association list with one
  entry per key; \<open>Set\<close> replaces the entry of a key or adds one.
\<close>

type_synonym Values = "(string \<times> string list) list"

primrec Set :: "Values \<Rightarrow> string \<Rightarrow> string \<Rightarrow> Values" where
  "Set [] key val = [(key, [val])]"
| "Set (p # ps) key val = (if fst p = key then (key, [val]) # ps else p # Set ps key val)"

definition Get_all :: "Values \<Rightarrow> string \<Rightarrow> string list" where
  "Get_all v key = (case map_of v key of None \<Rightarrow> [] | Some vs \<Rightarrow> vs)"

text \<open>
  \<open>Values.Encode\<close> walks the keys in sorted order and writes \<open>key=value\<close> for every
  value of the key, both escaped, with \<open>&\<close> between them.
\<close>

definition encode_pairs :: "Values \<Rightarrow> (string \<times> string) list" where
  "encode_pairs v = concat (map (\<lambda>k. map (\<lambda>x. (k, x)) (Get_all v k)) (sort (map fst v)))"

definition Encode :: "Values \<Rightarrow> string" where
  "Encode v = Join (map (\<lambda>(k, x). QueryEscape k @ ''='' @ QueryEscape x) (encode_pairs v)) ''&''"

subsection \<open>float64 and the verb %.15f\<close>

text \<open>
  A \<open>float64\<close> is its IEEE 754 binary64 bit pattern: one sign bit, eleven exponent
  bits, 52 fraction bits. A finite value is \<open>\<plusminus> f64_mant * 2 ^ f64_pow\<close>.
\<close>

type_synonym float64 = "64 word"

definition f64_sign :: "float64 \<Rightarrow> bool" where
  "f64_sign x = (2 ^ 63 \<le> unat x)"

definition f64_exp :: "float64 \<Rightarrow> nat" where
  "f64_exp x = (unat x div 2 ^ 52) mod 2048"

definition f64_frac :: "float64 \<Rightarrow> nat" where
  "f64_frac x = unat x mod 2 ^ 52"

definition IsNaN :: "float64 \<Rightarrow> bool" where
  "IsNaN x = (f64_exp x = 2047 \<and> f64_frac x \<noteq> 0)"

definition IsInf :: "float64 \<Rightarrow> bool" where
  "IsInf x = (f64_exp x = 2047 \<and> f64_frac x = 0)"

definition f64_mant :: "float64 \<Rightarrow> nat" where
  "f64_mant x = (if f64_exp x = 0 then f64_frac x else 2 ^ 52 + f64_frac x)"

definition f64_pow :: "float64 \<Rightarrow> int" where
  "f64_pow x = (if f64_exp x = 0 then - 1074 else int (f64_exp x) - 1075)"

definition f64_abs :: "float64 \<Rightarrow> rat" where
  "f64_abs x =
     (if f64_pow x \<ge> 0 then of_nat (f64_mant x * 2 ^ nat (f64_pow x))
      else of_nat (f64_mant x) / of_nat (2 ^ nat (- f64_pow x)))"

text \<open>The quotient \<open>n / d\<close> rounded to the nearest integer, ties to the even one.\<close>

definition round_half_even :: "nat \<Rightarrow> nat \<Rightarrow> nat" where
  "round_half_even n d =
     (let q = n div d; r = n mod d
      in if 2 * r < d then q
         else if d < 2 * r then q + 1
         else if even q then q else q + 1)"

text \<open>
  \<open>strconv\<close> formats with a given precision by writing the exact decimal expansion of
  the binary value and rounding it at the requested digit, ties to even. \<open>scaled15\<close> is
  the absolute value in units of \<open>10 ^ - 15\<close> after that rounding.
\<close>

definition scaled15 :: "float64 \<Rightarrow> nat" where
  "scaled15 x =
     (if f64_pow x \<ge> 0 then f64_mant x * 10 ^ 15 * 2 ^ nat (f64_pow x)
      else round_half_even (f64_mant x * 10 ^ 15) (2 ^ nat (- f64_pow x)))"

definition digit :: "nat \<Rightarrow> char" where
  "digit d = ''0123456789'' ! d"

function digits_of :: "nat \<Rightarrow> string" where
  "digits_of n = (if n < 10 then [digit n] else digits_of (n div 10) @ [digit (n mod 10)])"
  by pat_completeness auto
termination
  by (relation "measure id") auto

declare digits_of.simps [simp del]

primrec fixed_digits :: "nat \<Rightarrow> nat \<Rightarrow> string" where
  "fixed_digits 0 n = []"
| "fixed_digits (Suc w) n = fixed_digits w (n div 10) @ [digit (n mod 10)]"

text \<open>
  \<open>fmt.Sprintf("%.15f", x)\<close>. \<open>fmt\<close> prints the infinities as \<open>+Inf\<close> and \<open>-Inf\<close> and
  a NaN as \<open>NaN\<close>; a finite value is an optional minus sign (also for negative zero),
  the integer digits, a point and fifteen fraction digits.
\<close>

definition Sprintf_15f :: "float64 \<Rightarrow> string" where
  "Sprintf_15f x =
     (if IsNaN x then ''NaN''
      else if IsInf x then (if f64_sign x then ''-Inf'' else ''+Inf'')
      else (if f64_sign x then ''-'' else [])
           @ digits_of (scaled15 x div 10 ^ 15) @ ''.''
           @ fixed_digits 15 (scaled15 x mod 10 ^ 15))"

definition Sprintf_position :: "float64 \<Rightarrow> float64 \<Rightarrow> string" where
  \<comment> \<open>\<open>fmt.Sprintf("%.15f,%.15f", a, b)\<close>\<close>
  "Sprintf_position a b = Sprintf_15f a @ '','' @ Sprintf_15f b"

section \<open>The package w3w\<close>

definition endpoint :: string where
  "endpoint = ''https://api.what3words.com''"

datatype error = ErrNoAPIKey | TransportError string | DecodeError string

text \<open>\<open>What3Words\<close> is \<open>[3]string\<close>, \<open>LatLng\<close> is \<open>[2]float64\<close>, \<open>BBox\<close> is \<open>[2]*LatLng\<close>.\<close>

datatype What3Words = What3Words string string string

fun words_slice :: "What3Words \<Rightarrow> string list" where
  \<comment> \<open>\<open>words[:]\<close>\<close>
  "words_slice (What3Words a b c) = [a, b, c]"

datatype LatLng = LatLng float64 float64

fun Lat :: "LatLng \<Rightarrow> float64" where
  "Lat (LatLng a b) = a"

fun Lng :: "LatLng \<Rightarrow> float64" where
  "Lng (LatLng a b) = b"

datatype BBox = BBox "LatLng option" "LatLng option"

record Position =
  pType :: string
  pWords :: What3Words
  pPosition :: "LatLng option"
  pCorners :: "BBox option"
  pLanguage :: string

definition Position_zero :: Position where
  \<comment> \<open>\<open>Position{}\<close>\<close>
  "Position_zero =
     \<lparr>pType = [], pWords = What3Words [] [] [], pPosition = None, pCorners = None,
      pLanguage = []\<rparr>"

record Language =
  Code :: string
  Name :: string

definition Language_zero :: Language where
  "Language_zero = \<lparr>Code = [], Name = []\<rparr>"

text \<open>
  A Go slice is \<open>nil\<close>, or a window on a backing array: its elements, and behind them
  the slots of the array up to its capacity.
\<close>

datatype 'a slice = Nil_slice | Slice "'a list" "'a list"

record Languages =
  lLanguages :: "Language slice"

record Options =
  Lang :: string
  Corners :: bool

definition defs :: Options where
  "defs = \<lparr>Lang = ''en'', Corners = False\<rparr>"

definition add :: "Options \<Rightarrow> Values \<Rightarrow> Values" where
  "add o' v =
     (let v1 = (if Lang o' = [] then Set v ''lang'' ''en'' else Set v ''lang'' (Lang o'))
      in if Corners o' then Set v1 ''corners'' ''true'' else v1)"

text \<open>
  The client. Its third field in the source is the \<open>http.Client\<close> that \<open>New\<close>
  allocates; what that client does with a request is the environment below.
\<close>

record W3W =
  apikey :: string
  defaults :: Options

definition New :: "string \<Rightarrow> Options option \<Rightarrow> error + W3W" where
  "New key dflt =
     (if key = [] \<or> TrimSpace key = [] then Inl ErrNoAPIKey
      else case dflt of
             None \<Rightarrow> Inr \<lparr>apikey = key, defaults = defs\<rparr>
           | Some d \<Rightarrow> Inr \<lparr>apikey = key, defaults = d\<rparr>)"

subsection \<open>encoding/json, as far as the result types need it\<close>

text \<open>
  A JSON value as the decoder's scanner delivers it. A string is already unquoted, a
  number is still its literal.
\<close>

datatype json =
  JNull | JBool bool | JNumber string | JString string
  | JArray "json list" | JObject "(string \<times> json) list"

definition asciiUpper :: "char \<Rightarrow> char" where
  "asciiUpper c =
     (if 0x61 \<le> (of_char c :: nat) \<and> (of_char c :: nat) \<le> 0x7A
      then char_of ((of_char c :: nat) - 32) else c)"

text \<open>
  The decoder matches an object key against a field name exactly or under Unicode
  simple case folding. Two runes outside ASCII fold to an ASCII letter: U+017F to S and
  U+212A to K. Every other rune outside ASCII folds to a rune outside ASCII, so it can
  never equal a character of the ASCII field names of this package, and its bytes are
  kept as they are.
\<close>

function foldName :: "string \<Rightarrow> string" where
  "foldName s =
     (case s of
        [] \<Rightarrow> []
      | c # t \<Rightarrow>
          if (of_char c :: nat) < 0x80 then asciiUpper c # foldName t
          else let (r, n) = DecodeRuneInString s
               in (if r = 0x17F then ''S'' else if r = 0x212A then ''K'' else take n s)
                  @ foldName (drop n s))"
  by pat_completeness auto
termination
proof (relation "measure length")
  fix s t :: string and c :: char and x :: "nat \<times> nat" and r n :: nat
  assume "s = c # t" and "x = DecodeRuneInString s" and "(r, n) = x"
  then have "0 < n"
    by (auto simp: DecodeRuneInString_def Let_def split: if_splits)
  with \<open>s = c # t\<close> show "(drop n s, s) \<in> measure length"
    by simp
qed simp_all

declare foldName.simps [simp del]

definition name_matches :: "string \<Rightarrow> string \<Rightarrow> bool" where
  "name_matches field key = (key = field \<or> foldName key = foldName field)"

definition first_error :: "string option \<Rightarrow> string option \<Rightarrow> string option" where
  \<comment> \<open>the decoder keeps the first type error it meets and goes on\<close>
  "first_error e1 e2 = (case e1 of Some c \<Rightarrow> Some c | None \<Rightarrow> e2)"

definition store_string :: "json \<Rightarrow> string \<Rightarrow> string \<times> string option" where
  "store_string j cur =
     (case j of
        JString x \<Rightarrow> (x, None)
      | JNull \<Rightarrow> (cur, None)
      | _ \<Rightarrow> (cur, Some ''json: cannot unmarshal into Go value of type string''))"

fun Language_members :: "(string \<times> json) list \<Rightarrow> Language \<Rightarrow> Language \<times> string option" where
  "Language_members [] l = (l, None)"
| "Language_members ((k, v) # ms) l =
     (if name_matches ''code'' k then
        (let (x, e) = store_string v (Code l);
             (l', e') = Language_members ms (l\<lparr>Code := x\<rparr>)
         in (l', first_error e e'))
      else if name_matches ''name_display'' k then
        (let (x, e) = store_string v (Name l);
             (l', e') = Language_members ms (l\<lparr>Name := x\<rparr>)
         in (l', first_error e e'))
      else Language_members ms l)"

definition into_Language :: "json \<Rightarrow> Language \<Rightarrow> Language \<times> string option" where
  "into_Language j l =
     (case j of
        JObject ms \<Rightarrow> Language_members ms l
      | JNull \<Rightarrow> (l, None)
      | _ \<Rightarrow> (l, Some ''json: cannot unmarshal into Go value of type w3w.Language''))"

text \<open>
  An array is decoded element by element into the slots of the backing array the slice
  already has (whatever an earlier decoding left there), and into fresh zero elements
  beyond its capacity.
\<close>

fun into_elems :: "json list \<Rightarrow> Language list \<Rightarrow> Language list \<times> string option" where
  "into_elems [] pool = ([], None)"
| "into_elems (j # js) pool =
     (let (l, e) = into_Language j (case pool of [] \<Rightarrow> Language_zero | p # _ \<Rightarrow> p);
          (ls, e') = into_elems js (tl pool)
      in (l # ls, first_error e e'))"

definition slice_pool :: "'a slice \<Rightarrow> 'a list" where
  "slice_pool s = (case s of Nil_slice \<Rightarrow> [] | Slice xs spare \<Rightarrow> xs @ spare)"

text \<open>
  Into a slice: \<open>null\<close> sets it to \<open>nil\<close>; an empty array makes a fresh empty slice; any
  other array fills it; anything else is a type error and leaves it alone.
\<close>

definition into_slice :: "json \<Rightarrow> Language slice \<Rightarrow> Language slice \<times> string option" where
  "into_slice j cur =
     (case j of
        JNull \<Rightarrow> (Nil_slice, None)
      | JArray js \<Rightarrow>
          if js = [] then (Slice [] [], None)
          else let (ls, e) = into_elems js (slice_pool cur)
               in (Slice ls (drop (length js) (slice_pool cur)), e)
      | _ \<Rightarrow> (cur, Some ''json: cannot unmarshal into Go value of type []w3w.Language''))"

fun Languages_members :: "(string \<times> json) list \<Rightarrow> Languages \<Rightarrow> Languages \<times> string option" where
  "Languages_members [] r = (r, None)"
| "Languages_members ((k, v) # ms) r =
     (if name_matches ''languages'' k then
        (let (x, e) = into_slice v (lLanguages r);
             (r', e') = Languages_members ms (r\<lparr>lLanguages := x\<rparr>)
         in (r', first_error e e'))
      else Languages_members ms r)"

definition unmarshal_Languages :: "json \<Rightarrow> Languages \<Rightarrow> string + Languages" where
  "unmarshal_Languages j r =
     (case j of
        JObject ms \<Rightarrow>
          (case Languages_members ms r of
             (r', None) \<Rightarrow> Inr r'
           | (r', Some c) \<Rightarrow> Inl c)
      | JNull \<Rightarrow> Inr r
      | _ \<Rightarrow> Inl ''json: cannot unmarshal into Go value of type w3w.Languages'')"

subsection \<open>The environment: network and scanner\<close>

record Request =
  Method :: string
  URL :: string
  Header :: "(string \<times> string) list"

text \<open>
  \<open>client_Do\<close> is \<open>http.Client.Do\<close>: the cause of a transport failure, or the body of
  the response. \<open>json_scan\<close> reads the first JSON value of a body or fails with a syntax
  error. \<open>unmarshal_Position\<close> stores a scanned value into a \<open>Position\<close>; its numbers
  are not looked into here. Every call of one of them is recorded as an event.
\<close>

record env =
  client_Do :: "Request \<Rightarrow> string + string"
  json_scan :: "string \<Rightarrow> string + json"
  unmarshal_Position :: "json \<Rightarrow> Position \<Rightarrow> string + Position"

datatype event = Sent Request | Decoded string

definition Decode :: "env \<Rightarrow> (json \<Rightarrow> 'a \<Rightarrow> string + 'a) \<Rightarrow> string \<Rightarrow> 'a \<Rightarrow> string + 'a" where
  \<comment> \<open>\<open>json.NewDecoder(resp.Body).Decode(in)\<close>\<close>
  "Decode E into body v =
     (case json_scan E body of Inl c \<Rightarrow> Inl c | Inr j \<Rightarrow> into j v)"

subsection \<open>exec and the four operations\<close>

definition NewRequest :: "string \<Rightarrow> string \<Rightarrow> Request" where
  "NewRequest m u = \<lparr>Method = m, URL = u, Header = []\<rparr>"

definition Header_Add :: "Request \<Rightarrow> string \<Rightarrow> string \<Rightarrow> Request" where
  "Header_Add r k v = r\<lparr>Header := Header r @ [(k, v)]\<rparr>"

text \<open>
  \<open>exec\<close> returns Go's pair: the interface value (\<open>None\<close> is the \<open>nil\<close> interface) and
  the error (\<open>None\<close> is \<open>nil\<close>); with them, the events of the call in order.
\<close>

definition add_options :: "W3W \<Rightarrow> Options option \<Rightarrow> Values \<Rightarrow> Values" where
  \<comment> \<open>\<open>if opts != nil { opts.add(vals) } else { w.defaults.add(vals) }\<close>\<close>
  "add_options w opts vals =
     (case opts of Some o' \<Rightarrow> add o' vals | None \<Rightarrow> add (defaults w) vals)"

definition exec ::
  "env \<Rightarrow> (json \<Rightarrow> 'a \<Rightarrow> string + 'a) \<Rightarrow> W3W \<Rightarrow> string \<Rightarrow> Values \<Rightarrow> Options option \<Rightarrow> 'a
     \<Rightarrow> ('a option \<times> error option) \<times> event list" where
  "exec E into w u vals opts v =
     (let vals1 = add_options w opts vals;
          req = Header_Add (NewRequest ''GET'' (u @ ''?'' @ Encode vals1))
                  ''Accept'' ''application/json''
      in case client_Do E req of
           Inl cause \<Rightarrow> ((None, Some (TransportError cause)), [Sent req])
         | Inr body \<Rightarrow>
             (case Decode E into body v of
                Inl cause \<Rightarrow> ((None, Some (DecodeError cause)), [Sent req, Decoded body])
              | Inr v' \<Rightarrow> ((Some v', None), [Sent req, Decoded body])))"

text \<open>
  What a caller of an operation sees: the returned pair, or the run-time panic of the
  type assertion \<open>pos.(*Position)\<close>, which Go raises when the interface value is \<open>nil\<close>.
\<close>

datatype 'a outcome = Panic string | Return "'a option" "error option"

definition type_assert :: "('a option \<times> error option) \<Rightarrow> 'a outcome" where
  \<comment> \<open>\<open>return x.(*T), err\<close>\<close>
  "type_assert r =
     (case r of
        (None, err) \<Rightarrow> Panic ''interface conversion: interface is nil''
      | (Some p, err) \<Rightarrow> Return (Some p) err)"

text \<open>
  The first statements of the operations: \<open>Words\<close> and \<open>LangsW3W\<close> set \<open>key\<close> and
  \<open>string\<close>, \<open>Position\<close> and \<open>LangsPos\<close> set \<open>key\<close> and \<open>position\<close>.
\<close>

definition string_vals :: "W3W \<Rightarrow> What3Words \<Rightarrow> Values" where
  "string_vals w words =
     (let vals = Set [] ''key'' (apikey w);
          vals = Set vals ''string'' (Join (words_slice words) ''.'')
      in vals)"

definition position_vals :: "W3W \<Rightarrow> LatLng \<Rightarrow> Values" where
  "position_vals w ll =
     (let vals = Set [] ''key'' (apikey w);
          vals = Set vals ''position'' (Sprintf_position (Lat ll) (Lng ll))
      in vals)"

definition Words ::
  "env \<Rightarrow> W3W \<Rightarrow> What3Words \<Rightarrow> Options option \<Rightarrow> Position outcome \<times> event list" where
  "Words E w words opts =
     (let vals = string_vals w words;
          (r, tr) = exec E (unmarshal_Position E) w (endpoint @ ''/w3w'') vals opts Position_zero
      in (type_assert r, tr))"

definition Position ::
  "env \<Rightarrow> W3W \<Rightarrow> LatLng \<Rightarrow> Options option \<Rightarrow> Position outcome \<times> event list" where
  "Position E w ll opts =
     (let vals = position_vals w ll;
          (r, tr) = exec E (unmarshal_Position E) w (endpoint @ ''/position'') vals opts
                      Position_zero
      in (type_assert r, tr))"

definition LangsW3W ::
  "env \<Rightarrow> W3W \<Rightarrow> What3Words \<Rightarrow> Options option \<Rightarrow> Languages outcome \<times> event list" where
  "LangsW3W E w words opts =
     (let vals = string_vals w words;
          (r, tr) = exec E unmarshal_Languages w (endpoint @ ''/get-languages'') vals opts
                      \<lparr>lLanguages = Slice [] []\<rparr>
      in (type_assert r, tr))"

definition LangsPos ::
  "env \<Rightarrow> W3W \<Rightarrow> LatLng \<Rightarrow> Options option \<Rightarrow> Languages outcome \<times> event list" where
  "LangsPos E w ll opts =
     (let vals = position_vals w ll;
          (r, tr) = exec E unmarshal_Languages w (endpoint @ ''/get-languages'') vals opts
                      \<lparr>lLanguages = Slice [] []\<rparr>
      in (type_assert r, tr))"

definition requests :: "event list \<Rightarrow> Request list" where
  "requests tr = concat (map (\<lambda>e. case e of Sent r \<Rightarrow> [r] | Decoded b \<Rightarrow> []) tr)"

definition decodings :: "event list \<Rightarrow> string list" where
  "decodings tr = concat (map (\<lambda>e. case e of Sent r \<Rightarrow> [] | Decoded b \<Rightarrow> [b]) tr)"

section \<open>Notions of the specification\<close>

text \<open>
  Option resolution in the words of the specification: the per-call options when they
  are given, the stored defaults of the client otherwise.
\<close>

definition spec_resolved_options :: "W3W \<Rightarrow> Options option \<Rightarrow> Options" where
  "spec_resolved_options w opts = (case opts of Some o' \<Rightarrow> o' | None \<Rightarrow> defaults w)"

definition spec_lang :: "Options \<Rightarrow> string" where
  \<comment> \<open>the configured code, or the literal \<open>en\<close> when it is empty\<close>
  "spec_lang o' = (if Lang o' = [] then ''en'' else Lang o')"

text \<open>
  The runes of a string in order, as \<open>for _, r := range s\<close> yields them; a key
  consists only of white space when all of them are spaces (the empty key included).
\<close>

function runes :: "string \<Rightarrow> nat list" where
  "runes s =
     (if s = [] then []
      else let (r, n) = DecodeRuneInString s in r # runes (drop n s))"
  by pat_completeness auto
termination
proof (relation "measure length")
  fix s :: string and x :: "nat \<times> nat" and r n :: nat
  assume "s \<noteq> []" and "x = DecodeRuneInString s" and "(r, n) = x"
  then have "0 < n"
    by (auto simp: DecodeRuneInString_def Let_def split: list.splits if_splits)
  with \<open>s \<noteq> []\<close> show "(drop n s, s) \<in> measure length"
    by simp
qed simp

declare runes.simps [simp del]

definition only_white_space :: "string \<Rightarrow> bool" where
  "only_white_space s = list_all IsSpace (runes s)"

text \<open>
  Fixed-point text with fifteen fraction digits: an optional minus sign, at least one
  digit, a point, exactly fifteen digits, and nothing else; and the number it denotes.
\<close>

definition is_digit :: "char \<Rightarrow> bool" where
  "is_digit c = (0x30 \<le> (of_char c :: nat) \<and> (of_char c :: nat) \<le> 0x39)"

definition nat_of_digits :: "string \<Rightarrow> nat" where
  "nat_of_digits ds = foldl (\<lambda>acc c. 10 * acc + ((of_char c :: nat) - 0x30)) 0 ds"

definition unsigned_part :: "string \<Rightarrow> string" where
  "unsigned_part s = (case s of [] \<Rightarrow> [] | c # t \<Rightarrow> if c = CHR ''-'' then t else s)"

definition fixed15 :: "string \<Rightarrow> bool" where
  "fixed15 s =
     (let u = unsigned_part s;
          ip = takeWhile is_digit u;
          rest = dropWhile is_digit u
      in ip \<noteq> [] \<and>
         (case rest of
            [] \<Rightarrow> False
          | d # fr \<Rightarrow> d = CHR ''.'' \<and> length fr = 15 \<and> list_all is_digit fr))"

definition fixed15_value :: "string \<Rightarrow> rat option" where
  "fixed15_value s =
     (if fixed15 s
      then Some ((if unsigned_part s = s then 1 else - 1)
                 * (of_nat (nat_of_digits (filter is_digit s)) / 10 ^ 15))
      else None)"

definition f64_value :: "float64 \<Rightarrow> rat" where
  "f64_value x = (if f64_sign x then - f64_abs x else f64_abs x)"

definition within_half_unit :: "string \<Rightarrow> float64 \<Rightarrow> bool" where
  \<comment> \<open>the text denotes a number at most \<open>5 * 10 ^ - 16\<close> away from the value\<close>
  "within_half_unit s x =
     (case fixed15_value s of
        None \<Rightarrow> False
      | Some q \<Rightarrow> \<bar>q - f64_value x\<bar> \<le> 1 / (2 * 10 ^ 15))"

definition IsFinite :: "float64 \<Rightarrow> bool" where
  "IsFinite x = (\<not> IsNaN x \<and> \<not> IsInf x)"

section \<open>Environments and inputs of the examples\<close>

definition refused :: env where
  \<comment> \<open>no connection: every request fails in the transport\<close>
  "refused =
     \<lparr>client_Do = (\<lambda>r. Inl ''dial tcp: connection refused''),
      json_scan = (\<lambda>b. Inl ''unexpected end of JSON input''),
      unmarshal_Position = (\<lambda>j p. Inr p)\<rparr>"

definition answering :: "string \<Rightarrow> string + json \<Rightarrow> env" where
  \<comment> \<open>a server that answers every request with the body \<open>b\<close>, which the scanner reads as \<open>j\<close>\<close>
  "answering b j =
     \<lparr>client_Do = (\<lambda>r. Inr b),
      json_scan = (\<lambda>x. if x = b then j else Inl ''invalid character''),
      unmarshal_Position =
        (\<lambda>j p. case j of
                  JObject ms \<Rightarrow> Inr p
                | JNull \<Rightarrow> Inr p
                | _ \<Rightarrow> Inl ''json: cannot unmarshal into Go value of type w3w.Position'')\<rparr>"

definition languages_null_body :: string where
  \<open>languages_null_body = ''{"languages":null}''\<close>

definition languages_null :: json where
  \<comment> \<open>what the scanner reads in that body\<close>
  "languages_null = JObject [(''languages'', JNull)]"

definition prom_cape_pump :: What3Words where
  "prom_cape_pump = What3Words ''prom'' ''cape'' ''pump''"

text \<open>
  The \<open>float64\<close> values of the Go literals \<open>51.484463\<close> and \<open>-0.195405\<close>: the binary64
  numbers nearest to them.
\<close>

definition lat_51_484463 :: float64 where
  "lat_51_484463 = 0x4049BE02E2328F9F"

definition lng_minus_0_195405 :: float64 where
  "lng_minus_0_195405 = 0xBFC90307F23CC8DE"

definition quiet_NaN :: float64 where
  "quiet_NaN = 0x7FF8000000000001"

definition small_1e_minus_20 :: float64 where
  \<comment> \<open>the \<open>float64\<close> value of the literal \<open>1e-20\<close>\<close>
  "small_1e_minus_20 = 0x3BC79CA10C924223"

definition KEY_client :: W3W where
  \<comment> \<open>what \<open>New("KEY", nil)\<close> returns\<close>
  "KEY_client = \<lparr>apikey = ''KEY'', defaults = defs\<rparr>"

section \<open>Requests of the four operations\<close>

lemma string_vals_eq:
  "string_vals w words = [(''key'', [apikey w]), (''string'', [Join (words_slice words) ''.''])]"
  by (simp add: string_vals_def)

lemma position_vals_eq:
  "position_vals w ll =
     [(''key'', [apikey w]), (''position'', [Sprintf_position (Lat ll) (Lng ll)])]"
  by (simp add: position_vals_def)

lemma add_string:
  "add o' [(''key'', [k]), (''string'', [s])] =
     [(''key'', [k]), (''string'', [s]), (''lang'', [spec_lang o'])]
       @ (if Corners o' then [(''corners'', [''true''])] else [])"
  by (simp add: add_def spec_lang_def)

lemma add_position:
  "add o' [(''key'', [k]), (''position'', [s])] =
     [(''key'', [k]), (''position'', [s]), (''lang'', [spec_lang o'])]
       @ (if Corners o' then [(''corners'', [''true''])] else [])"
  by (simp add: add_def spec_lang_def)

lemma add_options_resolved:
  "add_options w opts v = add (spec_resolved_options w opts) v"
  by (simp add: add_options_def spec_resolved_options_def split: option.splits)

lemma Encode_string_query:
  "Encode ([(''key'', [k]), (''string'', [s]), (''lang'', [l])]
       @ (if c then [(''corners'', [''true''])] else [])) = 
    (if c then ''corners=true&'' else []) @ ''key='' @ QueryEscape k @ ''&lang='' @ QueryEscape l @ ''&string='' @ QueryEscape s"
  by (simp add: Encode_def encode_pairs_def Get_all_def QueryEscape_def escape_byte_def shouldEscape_def)

lemma Encode_position_query:
  "Encode ([(''key'', [k]), (''position'', [s]), (''lang'', [l])]
       @ (if c then [(''corners'', [''true''])] else [])) = 
    (if c then ''corners=true&'' else []) @ ''key='' @ QueryEscape k @ ''&lang='' @ QueryEscape l @ ''&position='' @ QueryEscape s"
  by (simp add: Encode_def encode_pairs_def Get_all_def QueryEscape_def escape_byte_def shouldEscape_def)

lemma requests_exec:
  "requests (snd (exec E into w u vals opts v)) =
     [\<lparr>Method = ''GET'', URL = u @ ''?'' @ Encode (add_options w opts vals),
       Header = [(''Accept'', ''application/json'')]\<rparr>]"
  by (simp add: exec_def requests_def NewRequest_def Header_Add_def Let_def split: sum.splits)

lemma snd_Words: "snd (Words E w ws opts) =
   snd (exec E (unmarshal_Position E) w (endpoint @ ''/w3w'') (string_vals w ws) opts Position_zero)"
  by (simp add: Words_def Let_def split_beta)

lemma snd_Position: "snd (Position E w ll opts) =
   snd (exec E (unmarshal_Position E) w (endpoint @ ''/position'') (position_vals w ll) opts Position_zero)"
  by (simp add: Position_def Let_def split_beta)

lemma snd_LangsW3W: "snd (LangsW3W E w ws opts) =
   snd (exec E unmarshal_Languages w (endpoint @ ''/get-languages'') (string_vals w ws) opts
          \<lparr>lLanguages = Slice [] []\<rparr>)"
  by (simp add: LangsW3W_def Let_def split_beta)

lemma snd_LangsPos: "snd (LangsPos E w ll opts) =
   snd (exec E unmarshal_Languages w (endpoint @ ''/get-languages'') (position_vals w ll) opts
          \<lparr>lLanguages = Slice [] []\<rparr>)"
  by (simp add: LangsPos_def Let_def split_beta)

lemmas requests_ops = snd_Words snd_Position snd_LangsW3W snd_LangsPos requests_exec

lemma map_of_Set: "map_of (Set v k x) = (map_of v)(k \<mapsto> [x])"
  by (induction v) (auto simp: fun_eq_iff)

lemma Get_all_Set: "Get_all (Set v k x) k' = (if k' = k then [x] else Get_all v k')"
  by (simp add: Get_all_def map_of_Set)

lemma Get_all_add_lang: "Get_all (add o' v) ''lang'' = [spec_lang o']"
  by (simp add: add_def spec_lang_def Get_all_Set Let_def)

lemma Get_all_add_corners:
  "Get_all (add o' v) ''corners'' = (if Corners o' then [''true''] else Get_all v ''corners'')"
  by (simp add: add_def Get_all_Set Let_def)

lemma Get_all_add_other:
  "k \<noteq> ''lang'' \<Longrightarrow> k \<noteq> ''corners'' \<Longrightarrow> Get_all (add o' v) k = Get_all v k"
  by (simp add: add_def Get_all_Set Let_def)

section \<open>Option resolution\<close>

text \<open>
  Claim C3. In each of the four operations the query of the one request that is sent
  is the operation's own parameters with \<open>Options.add\<close> of the resolved options applied
  to them: of the options given with the call when there are any, also when every field
  of them is at its zero value, and of the defaults stored in the client when there are
  none. With options given, the outcome and the events of the call do not depend on the
  stored defaults at all; without, the call behaves as the same call with the stored
  defaults given as its options. Nothing is merged field by field.
\<close>

theorem per_call_options_replace_defaults:
  "spec_resolved_options w (Some o') = o'
   \<and> spec_resolved_options w None = defaults w
   \<and> requests (snd (Words E w ws opts)) =
       [\<lparr>Method = ''GET'',
         URL = endpoint @ ''/w3w'' @ ''?''
                 @ Encode (add (spec_resolved_options w opts) (string_vals w ws)),
         Header = [(''Accept'', ''application/json'')]\<rparr>]
   \<and> requests (snd (Position E w ll opts)) =
       [\<lparr>Method = ''GET'',
         URL = endpoint @ ''/position'' @ ''?''
                 @ Encode (add (spec_resolved_options w opts) (position_vals w ll)),
         Header = [(''Accept'', ''application/json'')]\<rparr>]
   \<and> requests (snd (LangsW3W E w ws opts)) =
       [\<lparr>Method = ''GET'',
         URL = endpoint @ ''/get-languages'' @ ''?''
                 @ Encode (add (spec_resolved_options w opts) (string_vals w ws)),
         Header = [(''Accept'', ''application/json'')]\<rparr>]
   \<and> requests (snd (LangsPos E w ll opts)) =
       [\<lparr>Method = ''GET'',
         URL = endpoint @ ''/get-languages'' @ ''?''
                 @ Encode (add (spec_resolved_options w opts) (position_vals w ll)),
         Header = [(''Accept'', ''application/json'')]\<rparr>]
   \<and> requests (snd (Words E w ws (Some o'))) =
       [\<lparr>Method = ''GET'',
         URL = endpoint @ ''/w3w'' @ ''?'' @ Encode (add o' (string_vals w ws)),
         Header = [(''Accept'', ''application/json'')]\<rparr>]
   \<and> requests (snd (Position E w ll (Some o'))) =
       [\<lparr>Method = ''GET'',
         URL = endpoint @ ''/position'' @ ''?'' @ Encode (add o' (position_vals w ll)),
         Header = [(''Accept'', ''application/json'')]\<rparr>]
   \<and> requests (snd (LangsW3W E w ws (Some o'))) =
       [\<lparr>Method = ''GET'',
         URL = endpoint @ ''/get-languages'' @ ''?'' @ Encode (add o' (string_vals w ws)),
         Header = [(''Accept'', ''application/json'')]\<rparr>]
   \<and> requests (snd (LangsPos E w ll (Some o'))) =
       [\<lparr>Method = ''GET'',
         URL = endpoint @ ''/get-languages'' @ ''?'' @ Encode (add o' (position_vals w ll)),
         Header = [(''Accept'', ''application/json'')]\<rparr>]
   \<and> requests (snd (Words E w ws None)) =
       [\<lparr>Method = ''GET'',
         URL = endpoint @ ''/w3w'' @ ''?'' @ Encode (add (defaults w) (string_vals w ws)),
         Header = [(''Accept'', ''application/json'')]\<rparr>]
   \<and> requests (snd (Position E w ll None)) =
       [\<lparr>Method = ''GET'',
         URL = endpoint @ ''/position'' @ ''?'' @ Encode (add (defaults w) (position_vals w ll)),
         Header = [(''Accept'', ''application/json'')]\<rparr>]
   \<and> requests (snd (LangsW3W E w ws None)) =
       [\<lparr>Method = ''GET'',
         URL = endpoint @ ''/get-languages'' @ ''?''
                 @ Encode (add (defaults w) (string_vals w ws)),
         Header = [(''Accept'', ''application/json'')]\<rparr>]
   \<and> requests (snd (LangsPos E w ll None)) =
       [\<lparr>Method = ''GET'',
         URL = endpoint @ ''/get-languages'' @ ''?''
                 @ Encode (add (defaults w) (position_vals w ll)),
         Header = [(''Accept'', ''application/json'')]\<rparr>]
   \<and> Words E w ws (Some o') = Words E (w\<lparr>defaults := d\<rparr>) ws (Some o')
   \<and> Position E w ll (Some o') = Position E (w\<lparr>defaults := d\<rparr>) ll (Some o')
   \<and> LangsW3W E w ws (Some o') = LangsW3W E (w\<lparr>defaults := d\<rparr>) ws (Some o')
   \<and> LangsPos E w ll (Some o') = LangsPos E (w\<lparr>defaults := d\<rparr>) ll (Some o')
   \<and> Words E w ws None = Words E w ws (Some (defaults w))
   \<and> Position E w ll None = Position E w ll (Some (defaults w))
   \<and> LangsW3W E w ws None = LangsW3W E w ws (Some (defaults w))
   \<and> LangsPos E w ll None = LangsPos E w ll (Some (defaults w))
   \<and> add_options w (Some o') v = add o' v
   \<and> add_options w None v = add (defaults w) v"
proof -
  have res: "spec_resolved_options w (Some o') = o'" "spec_resolved_options w None = defaults w"
    by (simp_all add: spec_resolved_options_def)
  have reqs:
    "requests (snd (Words E w ws p)) =
       [\<lparr>Method = ''GET'',
         URL = endpoint @ ''/w3w'' @ ''?''
                 @ Encode (add (spec_resolved_options w p) (string_vals w ws)),
         Header = [(''Accept'', ''application/json'')]\<rparr>]"
    "requests (snd (Position E w ll p)) =
       [\<lparr>Method = ''GET'',
         URL = endpoint @ ''/position'' @ ''?''
                 @ Encode (add (spec_resolved_options w p) (position_vals w ll)),
         Header = [(''Accept'', ''application/json'')]\<rparr>]"
    "requests (snd (LangsW3W E w ws p)) =
       [\<lparr>Method = ''GET'',
         URL = endpoint @ ''/get-languages'' @ ''?''
                 @ Encode (add (spec_resolved_options w p) (string_vals w ws)),
         Header = [(''Accept'', ''application/json'')]\<rparr>]"
    "requests (snd (LangsPos E w ll p)) =
       [\<lparr>Method = ''GET'',
         URL = endpoint @ ''/get-languages'' @ ''?''
                 @ Encode (add (spec_resolved_options w p) (position_vals w ll)),
         Header = [(''Accept'', ''application/json'')]\<rparr>]"
    for p
    by (simp_all only: requests_ops add_options_resolved append_assoc)
  have same:
    "Words E w ws (Some o') = Words E (w\<lparr>defaults := d\<rparr>) ws (Some o')
     \<and> Position E w ll (Some o') = Position E (w\<lparr>defaults := d\<rparr>) ll (Some o')
     \<and> LangsW3W E w ws (Some o') = LangsW3W E (w\<lparr>defaults := d\<rparr>) ws (Some o')
     \<and> LangsPos E w ll (Some o') = LangsPos E (w\<lparr>defaults := d\<rparr>) ll (Some o')
     \<and> Words E w ws None = Words E w ws (Some (defaults w))
     \<and> Position E w ll None = Position E w ll (Some (defaults w))
     \<and> LangsW3W E w ws None = LangsW3W E w ws (Some (defaults w))
     \<and> LangsPos E w ll None = LangsPos E w ll (Some (defaults w))
     \<and> add_options w (Some o') v = add o' v
     \<and> add_options w None v = add (defaults w) v"
    by (simp add: Words_def Position_def LangsW3W_def LangsPos_def exec_def add_options_def
          string_vals_def position_vals_def)
  show ?thesis
    using reqs [of opts] reqs [of "Some o'"] reqs [of None] same
    by (simp only: res simp_thms)
qed

text \<open>
  A client whose defaults are \<open>de\<close> with corners. Called with the zero value of
  \<open>Options\<close>, it behaves as a client with the package defaults and sends \<open>lang=en\<close>
  and no \<open>corners\<close>; called without options, it sends \<open>lang=de\<close> and \<open>corners=true\<close>.
\<close>

theorem per_call_options_replace_defaults_witness:
  "Words refused \<lparr>apikey = ''KEY'', defaults = \<lparr>Lang = ''de'', Corners = True\<rparr>\<rparr> prom_cape_pump
       (Some \<lparr>Lang = [], Corners = False\<rparr>)
     = Words refused KEY_client prom_cape_pump (Some \<lparr>Lang = [], Corners = False\<rparr>)
   \<and> requests (snd (Words refused \<lparr>apikey = ''KEY'', defaults = \<lparr>Lang = ''de'', Corners = True\<rparr>\<rparr>
         prom_cape_pump (Some \<lparr>Lang = [], Corners = False\<rparr>)))
     = [\<lparr>Method = ''GET'',
         URL = ''https://api.what3words.com/w3w?key=KEY&lang=en&string=prom.cape.pump'',
         Header = [(''Accept'', ''application/json'')]\<rparr>]
   \<and> requests (snd (Words refused \<lparr>apikey = ''KEY'', defaults = \<lparr>Lang = ''de'', Corners = True\<rparr>\<rparr>
         prom_cape_pump None))
     = [\<lparr>Method = ''GET'',
         URL = ''https://api.what3words.com/w3w?corners=true&key=KEY&lang=de&string=prom.cape.pump'',
         Header = [(''Accept'', ''application/json'')]\<rparr>]"
proof -
  let ?W = "\<lparr>apikey = ''KEY'', defaults = \<lparr>Lang = ''de'', Corners = True\<rparr>\<rparr>"
  let ?z = "\<lparr>Lang = [], Corners = False\<rparr>"
  note t = per_call_options_replace_defaults
      [where E = refused and w = ?W and ws = prom_cape_pump and o' = ?z and d = defs
         and ll = "LatLng 0 0" and opts = None and v = "[]"]
  from t have same: "Words refused ?W prom_cape_pump (Some ?z)
      = Words refused (?W\<lparr>defaults := defs\<rparr>) prom_cape_pump (Some ?z)"
    by (elim conjE)
  from t have given: "requests (snd (Words refused ?W prom_cape_pump (Some ?z))) =
       [\<lparr>Method = ''GET'',
         URL = endpoint @ ''/w3w'' @ ''?'' @ Encode (add ?z (string_vals ?W prom_cape_pump)),
         Header = [(''Accept'', ''application/json'')]\<rparr>]"
    by (elim conjE)
  from t have stored: "requests (snd (Words refused ?W prom_cape_pump None)) =
       [\<lparr>Method = ''GET'',
         URL = endpoint @ ''/w3w'' @ ''?''
                 @ Encode (add (defaults ?W) (string_vals ?W prom_cape_pump)),
         Header = [(''Accept'', ''application/json'')]\<rparr>]"
    by (elim conjE)
  have enc1: "Encode (add ?z (string_vals ?W prom_cape_pump))
      = ''key=KEY&lang=en&string=prom.cape.pump''"
    by (simp add: string_vals_eq add_string spec_lang_def prom_cape_pump_def
        Encode_def encode_pairs_def Get_all_def QueryEscape_def escape_byte_def shouldEscape_def)
  have enc2: "Encode (add (defaults ?W) (string_vals ?W prom_cape_pump))
      = ''corners=true&key=KEY&lang=de&string=prom.cape.pump''"
    by (simp add: string_vals_eq add_string spec_lang_def prom_cape_pump_def
        Encode_def encode_pairs_def Get_all_def QueryEscape_def escape_byte_def shouldEscape_def)
  show ?thesis
    unfolding given stored enc1 enc2
    using same by (simp add: KEY_client_def endpoint_def)
qed

section \<open>Query parameters of the options\<close>

text \<open>
  Claim C6. \<open>Options.add\<close> sets \<open>lang\<close> to the language code of the options, or to
  the literal \<open>en\<close> when the code is empty, and sets \<open>corners\<close> to \<open>true\<close> when the flag
  is set; with the flag unset it leaves \<open>corners\<close> as it was. The query of each of the
  four operations is therefore exactly \<open>key\<close>, \<open>string\<close> or \<open>position\<close>, \<open>lang\<close>, and,
  only with the flag set, \<open>corners=true\<close>: with the flag unset the query has no \<open>corners\<close>
  entry at all.
\<close>
theorem options_contribute_lang_and_corners:
  "Get_all (add o' v) ''lang'' = [if Lang o' = [] then ''en'' else Lang o']
   \<and> Get_all (add o' v) ''corners'' = (if Corners o' then [''true''] else Get_all v ''corners'')
   \<and> add_options w opts (string_vals w ws) =
       [(''key'', [apikey w]), (''string'', [Join (words_slice ws) ''.'']),
        (''lang'', [if Lang (spec_resolved_options w opts) = [] then ''en''
                    else Lang (spec_resolved_options w opts)])]
       @ (if Corners (spec_resolved_options w opts) then [(''corners'', [''true''])] else [])
   \<and> add_options w opts (position_vals w ll) =
       [(''key'', [apikey w]), (''position'', [Sprintf_position (Lat ll) (Lng ll)]),
        (''lang'', [if Lang (spec_resolved_options w opts) = [] then ''en''
                    else Lang (spec_resolved_options w opts)])]
       @ (if Corners (spec_resolved_options w opts) then [(''corners'', [''true''])] else [])
   \<and> requests (snd (Words E w ws opts)) =
       [\<lparr>Method = ''GET'',
         URL = endpoint @ ''/w3w'' @ ''?'' @ Encode (add_options w opts (string_vals w ws)),
         Header = [(''Accept'', ''application/json'')]\<rparr>]
   \<and> requests (snd (Position E w ll opts)) =
       [\<lparr>Method = ''GET'',
         URL = endpoint @ ''/position'' @ ''?'' @ Encode (add_options w opts (position_vals w ll)),
         Header = [(''Accept'', ''application/json'')]\<rparr>]
   \<and> requests (snd (LangsW3W E w ws opts)) =
       [\<lparr>Method = ''GET'',
         URL = endpoint @ ''/get-languages'' @ ''?''
                 @ Encode (add_options w opts (string_vals w ws)),
         Header = [(''Accept'', ''application/json'')]\<rparr>]
   \<and> requests (snd (LangsPos E w ll opts)) =
       [\<lparr>Method = ''GET'',
         URL = endpoint @ ''/get-languages'' @ ''?''
                 @ Encode (add_options w opts (position_vals w ll)),
         Header = [(''Accept'', ''application/json'')]\<rparr>]"
proof -
  have lang: "Get_all (add o' v) ''lang'' = [if Lang o' = [] then ''en'' else Lang o']"
    using Get_all_add_lang [of o' v] by (simp add: spec_lang_def)
  have sv: "add_options w opts (string_vals w ws) =
       [(''key'', [apikey w]), (''string'', [Join (words_slice ws) ''.'']),
        (''lang'', [if Lang (spec_resolved_options w opts) = [] then ''en''
                    else Lang (spec_resolved_options w opts)])]
       @ (if Corners (spec_resolved_options w opts) then [(''corners'', [''true''])] else [])"
    by (simp only: add_options_resolved string_vals_eq add_string spec_lang_def)
  have pv: "add_options w opts (position_vals w ll) =
       [(''key'', [apikey w]), (''position'', [Sprintf_position (Lat ll) (Lng ll)]),
        (''lang'', [if Lang (spec_resolved_options w opts) = [] then ''en''
                    else Lang (spec_resolved_options w opts)])]
       @ (if Corners (spec_resolved_options w opts) then [(''corners'', [''true''])] else [])"
    by (simp only: add_options_resolved position_vals_eq add_position spec_lang_def)
  show ?thesis
    by (simp only: lang Get_all_add_corners sv pv requests_ops append_assoc simp_thms)
qed

theorem options_contribute_lang_and_corners_witness:
  "add_options KEY_client (Some \<lparr>Lang = [], Corners = False\<rparr>) (string_vals KEY_client prom_cape_pump)
     = [(''key'', [''KEY'']), (''string'', [''prom.cape.pump'']), (''lang'', [''en''])]
   \<and> add_options KEY_client (Some \<lparr>Lang = ''de'', Corners = True\<rparr>)
        (string_vals KEY_client prom_cape_pump)
     = [(''key'', [''KEY'']), (''string'', [''prom.cape.pump'']), (''lang'', [''de'']),
        (''corners'', [''true''])]"
  using options_contribute_lang_and_corners
     [of "\<lparr>Lang = [], Corners = False\<rparr>" "[]" KEY_client "Some \<lparr>Lang = [], Corners = False\<rparr>"
         prom_cape_pump "LatLng 0 0" refused]
    options_contribute_lang_and_corners
     [of "\<lparr>Lang = [], Corners = False\<rparr>" "[]" KEY_client "Some \<lparr>Lang = ''de'', Corners = True\<rparr>"
         prom_cape_pump "LatLng 0 0" refused]
  by (simp add: spec_resolved_options_def KEY_client_def prom_cape_pump_def)

section \<open>The string parameter\<close>

text \<open>
  Claim C7. For every three-word address, the \<open>string\<close> parameter in the query of
  \<open>Words\<close> and of \<open>LangsW3W\<close> is the three words with one dot between neighbours, and
  no dot before the first or after the last.
\<close>
theorem string_parameter_is_words_joined_by_dots:
  "Join (words_slice (What3Words a b c)) ''.'' = a @ ''.'' @ b @ ''.'' @ c
   \<and> Get_all (add_options w opts (string_vals w (What3Words a b c))) ''string''
       = [a @ ''.'' @ b @ ''.'' @ c]
   \<and> requests (snd (Words E w (What3Words a b c) opts)) =
       [\<lparr>Method = ''GET'',
         URL = endpoint @ ''/w3w'' @ ''?''
                 @ Encode (add_options w opts (string_vals w (What3Words a b c))),
         Header = [(''Accept'', ''application/json'')]\<rparr>]
   \<and> requests (snd (LangsW3W E w (What3Words a b c) opts)) =
       [\<lparr>Method = ''GET'',
         URL = endpoint @ ''/get-languages'' @ ''?''
                 @ Encode (add_options w opts (string_vals w (What3Words a b c))),
         Header = [(''Accept'', ''application/json'')]\<rparr>]"
proof -
  have "Get_all (add_options w opts (string_vals w (What3Words a b c))) ''string''
          = Get_all (string_vals w (What3Words a b c)) ''string''"
    by (simp add: add_options_resolved Get_all_add_other)
  also have "\<dots> = [a @ ''.'' @ b @ ''.'' @ c]"
    by (simp add: string_vals_eq Get_all_def)
  finally show ?thesis
    by (simp add: requests_ops)
qed

theorem string_parameter_is_words_joined_by_dots_witness:
  "Get_all (add_options KEY_client None (string_vals KEY_client prom_cape_pump)) ''string''
     = [''prom.cape.pump'']"
  using string_parameter_is_words_joined_by_dots
    [of "''prom''" "''cape''" "''pump''" KEY_client None refused]
  by (simp add: prom_cape_pump_def)

section \<open>Order of the encoded query\<close>

lemma sorted_key_runs:
  "sorted ks \<Longrightarrow> sorted (concat (map (\<lambda>k. map (\<lambda>x. k) (g k)) ks))"
proof (induction ks)
  case Nil
  then show ?case by simp
next
  case (Cons k ks)
  then have "sorted (concat (map (\<lambda>k. map (\<lambda>x. k) (g k)) ks))" by simp
  moreover have "sorted (map (\<lambda>x. k) (g k))"
    by (induction "g k") (auto simp: sorted_map)
  moreover have "\<forall>x \<in> set (map (\<lambda>x. k) (g k)). \<forall>y \<in> set (concat (map (\<lambda>k. map (\<lambda>x. k) (g k)) ks)). x \<le> y"
    using Cons.prems by auto
  ultimately show ?case by (simp add: sorted_append)
qed

lemma keys_encode_pairs:
  "map fst (encode_pairs v) = concat (map (\<lambda>k. map (\<lambda>x. k) (Get_all v k)) (sort (map fst v)))"
  by (simp add: encode_pairs_def map_concat comp_def)

lemma sorted_encode_pairs: "sorted (map fst (encode_pairs v))"
  by (simp only: keys_encode_pairs) (rule sorted_key_runs, simp)

text \<open>
  Claim C10. \<open>Values.Encode\<close> writes the parameters in the sorted order of their keys,
  whatever the order in which they were set. For the four operations the query string
  is \<open>corners\<close> (when present), \<open>key\<close>, \<open>lang\<close>, and then \<open>position\<close> or \<open>string\<close>.
\<close>
theorem encoded_query_sorted_by_key:
  "sorted (map fst (encode_pairs v))
   \<and> Encode (Set (Set (Set (Set [] ''corners'' c) ''string'' s) ''lang'' l) ''key'' k)
       = Encode (Set (Set (Set (Set [] ''key'' k) ''string'' s) ''lang'' l) ''corners'' c)
   \<and> requests (snd (Words E w ws opts)) =
       [\<lparr>Method = ''GET'',
         URL = endpoint @ ''/w3w'' @ ''?''
                 @ (if Corners (spec_resolved_options w opts) then ''corners=true&'' else [])
                 @ ''key='' @ QueryEscape (apikey w)
                 @ ''&lang='' @ QueryEscape (spec_lang (spec_resolved_options w opts))
                 @ ''&string='' @ QueryEscape (Join (words_slice ws) ''.''),
         Header = [(''Accept'', ''application/json'')]\<rparr>]
   \<and> requests (snd (Position E w ll opts)) =
       [\<lparr>Method = ''GET'',
         URL = endpoint @ ''/position'' @ ''?''
                 @ (if Corners (spec_resolved_options w opts) then ''corners=true&'' else [])
                 @ ''key='' @ QueryEscape (apikey w)
                 @ ''&lang='' @ QueryEscape (spec_lang (spec_resolved_options w opts))
                 @ ''&position='' @ QueryEscape (Sprintf_position (Lat ll) (Lng ll)),
         Header = [(''Accept'', ''application/json'')]\<rparr>]
   \<and> requests (snd (LangsW3W E w ws opts)) =
       [\<lparr>Method = ''GET'',
         URL = endpoint @ ''/get-languages'' @ ''?''
                 @ (if Corners (spec_resolved_options w opts) then ''corners=true&'' else [])
                 @ ''key='' @ QueryEscape (apikey w)
                 @ ''&lang='' @ QueryEscape (spec_lang (spec_resolved_options w opts))
                 @ ''&string='' @ QueryEscape (Join (words_slice ws) ''.''),
         Header = [(''Accept'', ''application/json'')]\<rparr>]
   \<and> requests (snd (LangsPos E w ll opts)) =
       [\<lparr>Method = ''GET'',
         URL = endpoint @ ''/get-languages'' @ ''?''
                 @ (if Corners (spec_resolved_options w opts) then ''corners=true&'' else [])
                 @ ''key='' @ QueryEscape (apikey w)
                 @ ''&lang='' @ QueryEscape (spec_lang (spec_resolved_options w opts))
                 @ ''&position='' @ QueryEscape (Sprintf_position (Lat ll) (Lng ll)),
         Header = [(''Accept'', ''application/json'')]\<rparr>]"
proof -
  have order: "Encode (Set (Set (Set (Set [] ''corners'' c) ''string'' s) ''lang'' l) ''key'' k)
       = Encode (Set (Set (Set (Set [] ''key'' k) ''string'' s) ''lang'' l) ''corners'' c)"
    by (simp add: Encode_def encode_pairs_def Get_all_def)
  have sq: "Encode (add_options w opts (string_vals w ws)) =
      (if Corners (spec_resolved_options w opts) then ''corners=true&'' else [])
        @ ''key='' @ QueryEscape (apikey w)
        @ ''&lang='' @ QueryEscape (spec_lang (spec_resolved_options w opts))
        @ ''&string='' @ QueryEscape (Join (words_slice ws) ''.'')"
    by (simp only: add_options_resolved string_vals_eq add_string Encode_string_query)
  have pq: "Encode (add_options w opts (position_vals w ll)) =
      (if Corners (spec_resolved_options w opts) then ''corners=true&'' else [])
        @ ''key='' @ QueryEscape (apikey w)
        @ ''&lang='' @ QueryEscape (spec_lang (spec_resolved_options w opts))
        @ ''&position='' @ QueryEscape (Sprintf_position (Lat ll) (Lng ll))"
    by (simp only: add_options_resolved position_vals_eq add_position Encode_position_query)
  show ?thesis
    by (simp only: sorted_encode_pairs order requests_ops sq pq append_assoc simp_thms)
qed

theorem encoded_query_sorted_by_key_witness:
  "requests (snd (Words refused KEY_client prom_cape_pump (Some \<lparr>Lang = ''de'', Corners = True\<rparr>)))
     = [\<lparr>Method = ''GET'',
         URL = ''https://api.what3words.com/w3w?corners=true&key=KEY&lang=de&string=prom.cape.pump'',
         Header = [(''Accept'', ''application/json'')]\<rparr>]"
  using encoded_query_sorted_by_key
    [of "[]" c s l k refused KEY_client prom_cape_pump "Some \<lparr>Lang = ''de'', Corners = True\<rparr>"
        "LatLng 0 0"]
  by (simp add: spec_resolved_options_def spec_lang_def KEY_client_def prom_cape_pump_def
        endpoint_def QueryEscape_def escape_byte_def shouldEscape_def)

section \<open>Errors of the transport and of the decoder\<close>

lemma exec_transport_failure:
  "client_Do E = (\<lambda>r. Inl cause) \<Longrightarrow>
   exec E into w u vals opts v =
     ((None, Some (TransportError cause)),
      [Sent \<lparr>Method = ''GET'', URL = u @ ''?'' @ Encode (add_options w opts vals),
              Header = [(''Accept'', ''application/json'')]\<rparr>])"
  by (simp add: exec_def NewRequest_def Header_Add_def)

lemma exec_decode_failure:
  "client_Do E = (\<lambda>r. Inr body) \<Longrightarrow> Decode E into body v = Inl cause \<Longrightarrow>
   exec E into w u vals opts v =
     ((None, Some (DecodeError cause)),
      [Sent \<lparr>Method = ''GET'', URL = u @ ''?'' @ Encode (add_options w opts vals),
              Header = [(''Accept'', ''application/json'')]\<rparr>, Decoded body])"
  by (simp add: exec_def NewRequest_def Header_Add_def)

lemma exec_success:
  "client_Do E = (\<lambda>r. Inr body) \<Longrightarrow> Decode E into body v = Inr v' \<Longrightarrow>
   exec E into w u vals opts v =
     ((Some v', None),
      [Sent \<lparr>Method = ''GET'', URL = u @ ''?'' @ Encode (add_options w opts vals),
              Header = [(''Accept'', ''application/json'')]\<rparr>, Decoded body])"
  by (simp add: exec_def NewRequest_def Header_Add_def)

text \<open>
  Claim C1, at the failing input. When the transport fails, \<open>exec\<close> sends one request,
  decodes nothing and returns the \<open>nil\<close> interface with the transport error. Each of
  the four operations then asserts the type of that \<open>nil\<close> interface and panics; the
  caller does not receive the error.
\<close>
theorem transport_failure_panics:
  assumes "client_Do E = (\<lambda>r. Inl cause)"
  shows "fst (exec E into w u vals opts v) = (None, Some (TransportError cause))
    \<and> length (requests (snd (exec E into w u vals opts v))) = 1
    \<and> decodings (snd (exec E into w u vals opts v)) = []
    \<and> fst (Words E w ws opts) = Panic ''interface conversion: interface is nil''
    \<and> fst (Position E w ll opts) = Panic ''interface conversion: interface is nil''
    \<and> fst (LangsW3W E w ws opts) = Panic ''interface conversion: interface is nil''
    \<and> fst (LangsPos E w ll opts) = Panic ''interface conversion: interface is nil''"
  by (simp add: exec_transport_failure [OF assms] Words_def Position_def LangsW3W_def
        LangsPos_def type_assert_def requests_def decodings_def)

theorem transport_failure_panics_witness:
  "client_Do refused = (\<lambda>r. Inl ''dial tcp: connection refused'')
   \<and> Words refused KEY_client prom_cape_pump None =
       (Panic ''interface conversion: interface is nil'',
        [Sent \<lparr>Method = ''GET'',
                URL = ''https://api.what3words.com/w3w?key=KEY&lang=en&string=prom.cape.pump'',
                Header = [(''Accept'', ''application/json'')]\<rparr>])"
proof -
  have h: "client_Do refused = (\<lambda>r. Inl ''dial tcp: connection refused'')"
    by (simp add: refused_def)
  have "fst (Words refused KEY_client prom_cape_pump None)
          = Panic ''interface conversion: interface is nil''"
    using transport_failure_panics
      [OF h, where into = "unmarshal_Position refused" and w = KEY_client and u = "[]"
         and vals = "[]" and opts = None and v = Position_zero and ws = prom_cape_pump
         and ll = "LatLng 0 0"]
    by simp
  moreover have "snd (Words refused KEY_client prom_cape_pump None) =
        [Sent \<lparr>Method = ''GET'',
                URL = ''https://api.what3words.com/w3w?key=KEY&lang=en&string=prom.cape.pump'',
                Header = [(''Accept'', ''application/json'')]\<rparr>]"
    by (simp add: snd_Words exec_transport_failure [OF h] add_options_resolved
          spec_resolved_options_def KEY_client_def defs_def prom_cape_pump_def
          string_vals_eq add_string spec_lang_def Encode_def encode_pairs_def Get_all_def
          endpoint_def QueryEscape_def escape_byte_def shouldEscape_def)
  ultimately show ?thesis
    using h by (simp add: prod_eq_iff)
qed

text \<open>
  Claim C2, at the failing input. When decoding the body fails, \<open>exec\<close> returns the
  \<open>nil\<close> interface with the decoding error, and each of the four operations panics in
  its type assertion; the caller does not receive the error.
\<close>
theorem decode_failure_panics:
  assumes "client_Do E = (\<lambda>r. Inr body)"
    and "Decode E (unmarshal_Position E) body Position_zero = Inl c1"
    and "Decode E unmarshal_Languages body \<lparr>lLanguages = Slice [] []\<rparr> = Inl c2"
  shows "fst (exec E (unmarshal_Position E) w u vals opts Position_zero)
           = (None, Some (DecodeError c1))
    \<and> fst (exec E unmarshal_Languages w u vals opts \<lparr>lLanguages = Slice [] []\<rparr>)
           = (None, Some (DecodeError c2))
    \<and> fst (Words E w ws opts) = Panic ''interface conversion: interface is nil''
    \<and> fst (Position E w ll opts) = Panic ''interface conversion: interface is nil''
    \<and> fst (LangsW3W E w ws opts) = Panic ''interface conversion: interface is nil''
    \<and> fst (LangsPos E w ll opts) = Panic ''interface conversion: interface is nil''"
  by (simp add: exec_decode_failure [OF assms(1) assms(2)]
        exec_decode_failure [OF assms(1) assms(3)] Words_def Position_def LangsW3W_def
        LangsPos_def type_assert_def)

theorem decode_failure_panics_witness:
  "fst (Position (answering ''{'' (Inl ''unexpected end of JSON input'')) KEY_client
          (LatLng lat_51_484463 lng_minus_0_195405) None)
     = Panic ''interface conversion: interface is nil''
   \<and> fst (LangsPos (answering ''{'' (Inl ''unexpected end of JSON input'')) KEY_client
          (LatLng lat_51_484463 lng_minus_0_195405) None)
     = Panic ''interface conversion: interface is nil''"
proof -
  let ?E = "answering ''{'' (Inl ''unexpected end of JSON input'')"
  have h1: "client_Do ?E = (\<lambda>r. Inr ''{'')"
    by (simp add: answering_def)
  have h2: "Decode ?E (unmarshal_Position ?E) ''{'' Position_zero
              = Inl ''unexpected end of JSON input''"
    by (simp add: Decode_def answering_def)
  have h3: "Decode ?E unmarshal_Languages ''{'' \<lparr>lLanguages = Slice [] []\<rparr>
              = Inl ''unexpected end of JSON input''"
    by (simp add: Decode_def answering_def)
  show ?thesis
    using decode_failure_panics [OF h1 h2 h3] by simp
qed

text \<open>
  Claim C9, at the failing input. A body whose \<open>languages\<close> member is \<open>null\<close> decodes
  without error, and the decoder sets the slice, which the operation had initialised
  to an empty one, to \<open>nil\<close>: \<open>LangsW3W\<close> and \<open>LangsPos\<close> return a list that is \<open>nil\<close>.
\<close>
theorem languages_null_gives_nil_slice:
  assumes "client_Do E = (\<lambda>r. Inr body)"
    and "json_scan E body = Inr (JObject [(''languages'', JNull)])"
  shows "fst (LangsW3W E w ws opts) = Return (Some \<lparr>lLanguages = Nil_slice\<rparr>) None
    \<and> fst (LangsPos E w ll opts) = Return (Some \<lparr>lLanguages = Nil_slice\<rparr>) None"
proof -
  have "Decode E unmarshal_Languages body \<lparr>lLanguages = Slice [] []\<rparr>
          = Inr \<lparr>lLanguages = Nil_slice\<rparr>"
    using assms(2)
    by (simp add: Decode_def unmarshal_Languages_def into_slice_def name_matches_def
          first_error_def)
  from exec_success [OF assms(1) this] show ?thesis
    by (simp add: LangsW3W_def LangsPos_def type_assert_def)
qed

theorem languages_null_gives_nil_slice_witness:
  "fst (LangsW3W (answering languages_null_body (Inr languages_null)) KEY_client
          prom_cape_pump None)
     = Return (Some \<lparr>lLanguages = Nil_slice\<rparr>) None"
proof -
  let ?E = "answering languages_null_body (Inr languages_null)"
  have h1: "client_Do ?E = (\<lambda>r. Inr languages_null_body)"
    by (simp add: answering_def)
  have h2: "json_scan ?E languages_null_body = Inr (JObject [(''languages'', JNull)])"
    by (simp add: answering_def languages_null_def)
  show ?thesis
    using languages_null_gives_nil_slice [OF h1 h2] by simp
qed

section \<open>Construction\<close>

lemma DecodeRune_width: "s \<noteq> [] \<Longrightarrow> 0 < snd (DecodeRuneInString s)"
  by (auto simp: DecodeRuneInString_def Let_def split: list.splits)

lemma TrimLeftFunc_empty_iff: "TrimLeftFunc s f = [] \<longleftrightarrow> list_all f (runes s)"
proof (induction s f rule: TrimLeftFunc.induct)
  case (1 s f)
  show ?case
  proof (cases "s = []")
    case True
    then show ?thesis by (simp add: TrimLeftFunc.simps runes.simps)
  next
    case False
    obtain r n where d: "DecodeRuneInString s = (r, n)" by (cases "DecodeRuneInString s")
    show ?thesis
    proof (cases "f r")
      case True
      with 1 [OF False d [symmetric] refl True] False d show ?thesis
        by (subst TrimLeftFunc.simps, subst runes.simps) simp
    next
      case False
      with \<open>s \<noteq> []\<close> d show ?thesis
        by (subst TrimLeftFunc.simps, subst runes.simps) simp
    qed
  qed
qed

lemma TrimLeftFunc_head: 
  "TrimLeftFunc s f \<noteq> [] \<Longrightarrow> \<not> f (fst (DecodeRuneInString (TrimLeftFunc s f)))"
proof (induction s f rule: TrimLeftFunc.induct)
  case (1 s f)
  show ?case
  proof (cases "s = []")
    case True
    with 1(2) show ?thesis by (simp add: TrimLeftFunc.simps)
  next
    case False
    obtain r n where d: "DecodeRuneInString s = (r, n)" by (cases "DecodeRuneInString s")
    show ?thesis
    proof (cases "f r")
      case True
      then have eq: "TrimLeftFunc s f = TrimLeftFunc (drop n s) f"
        using False d by (subst TrimLeftFunc.simps) simp
      with 1(1) [OF False d [symmetric] refl True] 1(2) show ?thesis by simp
    next
      case False
      then have "TrimLeftFunc s f = s"
        using \<open>s \<noteq> []\<close> d by (subst TrimLeftFunc.simps) simp
      with False d show ?thesis by simp
    qed
  qed
qed

lemma DecodeRune_prefix:
  assumes "0 < k" "s \<noteq> []"
  shows "fst (DecodeRuneInString (take k s)) = fst (DecodeRuneInString s)
         \<or> fst (DecodeRuneInString (take k s)) = RuneError"
proof -
  obtain c t where s: "s = c # t" using assms(2) by (cases s) auto
  obtain k' where k: "k = Suc k'" using assms(1) by (cases k) auto
  show ?thesis
    unfolding s k
    by (auto simp: DecodeRuneInString_def Let_def nth_Cons' min_def)
qed


lemma scan_back_le: "scan_back t a l \<le> a"
  by (induction t a l rule: scan_back.induct) (subst scan_back.simps, auto)

lemma DecodeLast_cases:
  assumes "s \<noteq> []" and "DecodeLastRuneInString s = (r, n)"
  shows "0 < n \<and> n \<le> length s
         \<and> (n = length s \<longrightarrow> r = fst (DecodeRuneInString s) \<or> r = RuneError)"
proof -
  let ?e = "int (length s)"
  let ?start0 = "scan_back s (?e - 2) (max 0 (?e - 4))"
  let ?start = "if ?start0 < 0 then 0 else ?start0"
  have lt: "?start < ?e"
    using scan_back_le [of s "?e - 2" "max 0 (?e - 4)"] assms(1) by auto
  show ?thesis
  proof (cases "(of_char (s ! nat (?e - 1)) :: nat) < 0x80")
    case True
    with assms have rn: "r = of_char (s ! nat (?e - 1))" "n = 1"
      by (auto simp: DecodeLastRuneInString_def Let_def)
    have "n = length s \<longrightarrow> r = fst (DecodeRuneInString s)"
    proof
      assume "n = length s"
      with rn obtain c where "s = [c]" by (cases s) auto
      with True rn show "r = fst (DecodeRuneInString s)"
        by (simp add: DecodeRuneInString_def)
    qed
    with rn assms(1) show ?thesis by (cases s) auto
  next
    case False
    obtain r' sz where d: "DecodeRuneInString (drop (nat ?start) s) = (r', sz)"
      by (cases "DecodeRuneInString (drop (nat ?start) s)")
    show ?thesis
    proof (cases "?start + int sz \<noteq> ?e")
      case True
      with False d assms have "r = RuneError" "n = 1"
        by (auto simp: DecodeLastRuneInString_def Let_def)
      with assms(1) show ?thesis by (cases s) auto
    next
      case eq: False
      with False d assms have rn: "r = r'" "n = sz"
        by (auto simp: DecodeLastRuneInString_def Let_def)
      have ge: "0 \<le> ?start" by simp
      from eq lt ge have "0 < sz" "sz \<le> length s" by linarith+
      moreover have "n = length s \<longrightarrow> r = fst (DecodeRuneInString s)"
      proof
        assume "n = length s"
        with rn eq have "?start = 0" by auto
        with d rn show "r = fst (DecodeRuneInString s)" by simp
      qed
      ultimately show ?thesis using rn by simp
    qed
  qed
qed

lemma TrimRightFunc_nonempty:
  "s \<noteq> [] \<Longrightarrow> \<not> f (fst (DecodeRuneInString s)) \<Longrightarrow> \<not> f RuneError \<Longrightarrow> TrimRightFunc s f \<noteq> []"
proof (induction s f rule: TrimRightFunc.induct)
  case (1 s f)
  obtain r n where d: "DecodeLastRuneInString s = (r, n)"
    by (cases "DecodeLastRuneInString s")
  note c = DecodeLast_cases [OF 1(2) d]
  show ?case
  proof (cases "f r")
    case False
    with 1(2) d show ?thesis by (subst TrimRightFunc.simps) simp
  next
    case True
    with c 1(3,4) have "n \<noteq> length s" by auto
    with c have k: "0 < length s - n" by simp
    then have ne: "take (length s - n) s \<noteq> []" using 1(2) by simp
    have "\<not> f (fst (DecodeRuneInString (take (length s - n) s)))"
      using DecodeRune_prefix [OF k 1(2)] 1(3,4) by auto
    from 1(1) [OF 1(2) d [symmetric] refl True ne this 1(4)]
    show ?thesis
      using True 1(2) d by (subst TrimRightFunc.simps) simp
  qed
qed

lemma IsSpace_RuneError: "\<not> IsSpace RuneError"
  by (simp add: IsSpace_def RuneError_def)

lemma TrimSpace_empty_iff: "TrimSpace s = [] \<longleftrightarrow> only_white_space s"
proof
  assume "only_white_space s"
  then have "TrimLeftFunc s IsSpace = []"
    by (simp add: only_white_space_def TrimLeftFunc_empty_iff)
  then show "TrimSpace s = []"
    by (simp add: TrimSpace_def TrimFunc_def TrimRightFunc.simps)
next
  assume e: "TrimSpace s = []"
  show "only_white_space s"
  proof (rule ccontr)
    assume "\<not> only_white_space s"
    then have ne: "TrimLeftFunc s IsSpace \<noteq> []"
      by (simp add: only_white_space_def TrimLeftFunc_empty_iff)
    from TrimRightFunc_nonempty [OF ne TrimLeftFunc_head [OF ne] IsSpace_RuneError] e
    show False by (simp add: TrimSpace_def TrimFunc_def)
  qed
qed

lemma only_white_space_Nil: "only_white_space []"
  by (simp add: only_white_space_def runes.simps)

text \<open>
  Claim C5. \<open>New\<close> fails with \<open>ErrNoAPIKey\<close> exactly when the key is empty or all its
  runes are white space, which is exactly when it is empty or \<open>strings.TrimSpace\<close>
  leaves nothing of it. For every other key it succeeds, whatever the defaults, and
  stores the key as it was given; so the key of every client that \<open>New\<close> returns is
  neither empty nor white space only.
\<close>
theorem New_fails_exactly_on_blank_key:
  "(New key dflt = Inl ErrNoAPIKey \<longleftrightarrow> only_white_space key)
   \<and> (only_white_space key \<longleftrightarrow> key = [] \<or> TrimSpace key = [])
   \<and> (TrimSpace key \<noteq> [] \<longrightarrow>
        New key dflt = Inr \<lparr>apikey = key, defaults = (case dflt of None \<Rightarrow> defs | Some d \<Rightarrow> d)\<rparr>)
   \<and> (\<forall>w. New key dflt = Inr w \<longrightarrow>
          apikey w = key \<and> TrimSpace (apikey w) \<noteq> [] \<and> \<not> only_white_space (apikey w))"
proof -
  have blank: "only_white_space key \<longleftrightarrow> key = [] \<or> TrimSpace key = []"
    using only_white_space_Nil by (auto simp: TrimSpace_empty_iff)
  show ?thesis
    unfolding blank
    by (auto simp: New_def TrimSpace_empty_iff only_white_space_Nil split: option.splits)
qed

theorem New_fails_exactly_on_blank_key_witness:
  "TrimSpace ''KEY'' \<noteq> [] \<and> New ''KEY'' None = Inr KEY_client
   \<and> only_white_space [CHR 0x20, CHR 0x09, CHR 0xC2, CHR 0xA0, CHR 0xE2, CHR 0x80, CHR 0x83]
   \<and> New [CHR 0x20, CHR 0x09, CHR 0xC2, CHR 0xA0, CHR 0xE2, CHR 0x80, CHR 0x83]
         (Some \<lparr>Lang = ''de'', Corners = True\<rparr>) = Inl ErrNoAPIKey"
proof -
  have a: "TrimSpace ''KEY'' \<noteq> []" by code_simp
  have b: "only_white_space [CHR 0x20, CHR 0x09, CHR 0xC2, CHR 0xA0, CHR 0xE2, CHR 0x80, CHR 0x83]"
    by code_simp
  show ?thesis
    using a b New_fails_exactly_on_blank_key [of "''KEY''" None]
      New_fails_exactly_on_blank_key
        [of "[CHR 0x20, CHR 0x09, CHR 0xC2, CHR 0xA0, CHR 0xE2, CHR 0x80, CHR 0x83]"
            "Some \<lparr>Lang = ''de'', Corners = True\<rparr>"]
    by (simp add: KEY_client_def)
qed

section \<open>The position parameter\<close>

lemma digit_props: "d < 10 \<Longrightarrow> is_digit (digit d) \<and> (of_char (digit d) :: nat) = 0x30 + d"
proof -
  assume "d < 10"
  then have "d = 0 \<or> d = 1 \<or> d = 2 \<or> d = 3 \<or> d = 4 \<or> d = 5 \<or> d = 6 \<or> d = 7 \<or> d = 8
      \<or> d = 9"
    by arith
  then show ?thesis
    by (elim disjE) (simp_all add: digit_def is_digit_def)
qed

lemma nat_of_digits_snoc:
  "nat_of_digits (xs @ [c]) = 10 * nat_of_digits xs + ((of_char c :: nat) - 0x30)"
  by (simp add: nat_of_digits_def)

lemma digits_of_digits: "list_all is_digit (digits_of n) \<and> digits_of n \<noteq> []"
proof (induction n rule: digits_of.induct)
  case (1 n)
  show ?case
  proof (cases "n < 10")
    case True
    then show ?thesis by (subst (1 2) digits_of.simps) (simp add: digit_props)
  next
    case False
    with 1 show ?thesis by (subst (1 2) digits_of.simps) (simp add: digit_props)
  qed
qed

lemma nat_of_digits_of: "nat_of_digits (digits_of n) = n"
proof (induction n rule: digits_of.induct)
  case (1 n)
  show ?case
  proof (cases "n < 10")
    case True
    then show ?thesis
      using nat_of_digits_snoc [of "[]" "digit n"]
      by (subst digits_of.simps) (simp add: digit_props nat_of_digits_def)
  next
    case False
    with 1 show ?thesis
      by (subst digits_of.simps) (simp add: nat_of_digits_snoc digit_props)
  qed
qed

lemma fixed_digits_digits: "length (fixed_digits w m) = w \<and> list_all is_digit (fixed_digits w m)"
  by (induction w arbitrary: m) (simp_all add: digit_props)

lemma nat_of_digits_fixed:
  "nat_of_digits (xs @ fixed_digits w m) = nat_of_digits xs * 10 ^ w + m mod 10 ^ w"
proof (induction w arbitrary: m)
  case 0
  then show ?case by simp
next
  case (Suc w)
  have "nat_of_digits (xs @ fixed_digits (Suc w) m)
          = 10 * nat_of_digits (xs @ fixed_digits w (m div 10)) + m mod 10"
    using nat_of_digits_snoc [of "xs @ fixed_digits w (m div 10)" "digit (m mod 10)"]
    by (simp add: digit_props)
  also have "\<dots> = 10 * (nat_of_digits xs * 10 ^ w + (m div 10) mod 10 ^ w) + m mod 10"
    by (simp add: Suc)
  also have "\<dots> = nat_of_digits xs * 10 ^ Suc w + m mod 10 ^ Suc w"
    by (simp add: mod_mult2_eq algebra_simps)
  finally show ?case .
qed

lemma round_half_even_bound:
  assumes "0 < d"
  shows "\<bar>(of_nat (round_half_even n d) :: rat) - of_nat n / of_nat d\<bar> \<le> 1 / 2"
proof -
  let ?q = "n div d" and ?r = "n mod d"
  have "n = ?q * d + ?r" by simp
  then have "(of_nat n :: rat) = of_nat ?q * of_nat d + of_nat ?r"
    by (metis of_nat_add of_nat_mult)
  then have frac: "(of_nat n :: rat) / of_nat d = of_nat ?q + of_nat ?r / of_nat d"
    using assms by (simp add: field_simps)
  have r: "?r < d" using assms by simp
  have dpos: "(0::rat) < of_nat d" using assms by simp
  consider "2 * ?r < d" | "d < 2 * ?r" | "2 * ?r = d" by linarith
  then show ?thesis
  proof cases
    case 1
    then have "(2::rat) * of_nat ?r < of_nat d"
      by (metis of_nat_less_iff of_nat_mult of_nat_numeral)
    then have "(of_nat ?r :: rat) / of_nat d \<le> 1 / 2"
      using dpos by (simp add: field_simps)
    moreover have "(0::rat) \<le> of_nat ?r / of_nat d" by simp
    ultimately show ?thesis
      using 1 by (simp add: round_half_even_def Let_def frac)
  next
    case 2
    then have "(of_nat d :: rat) < 2 * of_nat ?r"
      by (metis of_nat_less_iff of_nat_mult of_nat_numeral)
    then have a: "1 / 2 \<le> (of_nat ?r :: rat) / of_nat d"
      using dpos by (simp add: field_simps)
    have "(of_nat ?r :: rat) < of_nat d" using r by simp
    then have b: "(of_nat ?r :: rat) / of_nat d \<le> 1"
      using dpos by (simp add: field_simps)
    from 2 have "round_half_even n d = ?q + 1"
      by (simp add: round_half_even_def Let_def)
    with a b show ?thesis by (simp add: frac abs_if)
  next
    case 3
    then have "(2::rat) * of_nat ?r = of_nat d"
      by (metis of_nat_mult of_nat_numeral)
    then have a: "(of_nat ?r :: rat) / of_nat d = 1 / 2"
      using dpos by (simp add: field_simps)
    from 3 have "round_half_even n d = ?q \<or> round_half_even n d = ?q + 1"
      by (simp add: round_half_even_def Let_def)
    moreover have "(of_nat n :: rat) / of_nat d = of_nat ?q + 1 / 2"
      by (simp only: frac a)
    ultimately show ?thesis by auto
  qed
qed

lemma scaled15_close:
  "\<bar>(of_nat (scaled15 x) :: rat) / 10 ^ 15 - f64_abs x\<bar> \<le> 1 / (2 * 10 ^ 15)"
proof (cases "f64_pow x \<ge> 0")
  case True
  then show ?thesis by (simp add: scaled15_def f64_abs_def)
next
  case False
  let ?d = "(2::nat) ^ nat (- f64_pow x)"
  have "\<bar>(of_nat (round_half_even (f64_mant x * 10 ^ 15) ?d) :: rat)
          - of_nat (f64_mant x * 10 ^ 15) / of_nat ?d\<bar> \<le> 1 / 2"
    by (rule round_half_even_bound) simp
  then have "\<bar>(of_nat (scaled15 x) :: rat) - f64_abs x * 10 ^ 15\<bar> \<le> 1 / 2"
    using False by (simp add: scaled15_def f64_abs_def)
  then have "\<bar>((of_nat (scaled15 x) :: rat) - f64_abs x * 10 ^ 15) / 10 ^ 15\<bar> \<le> (1 / 2) / 10 ^ 15"
    by (simp add: divide_right_mono)
  then show ?thesis by (simp add: diff_divide_distrib)
qed


lemma takeWhile_digits:
  "list_all is_digit xs \<Longrightarrow> \<not> is_digit y \<Longrightarrow> takeWhile is_digit (xs @ y # ys) = xs"
  by (induction xs) simp_all

lemma dropWhile_digits:
  "list_all is_digit xs \<Longrightarrow> \<not> is_digit y \<Longrightarrow> dropWhile is_digit (xs @ y # ys) = y # ys"
  by (induction xs) simp_all

lemma filter_digits: "list_all is_digit xs \<Longrightarrow> filter is_digit xs = xs"
  by (induction xs) simp_all

lemma unsigned_digits:
  "list_all is_digit xs \<Longrightarrow> xs \<noteq> [] \<Longrightarrow> unsigned_part (xs @ ys) = xs @ ys"
  by (cases xs) (auto simp: unsigned_part_def is_digit_def)

text \<open>The text of a finite value, part by part.\<close>

lemma Sprintf_15f_finite:
  "IsFinite x \<Longrightarrow>
   Sprintf_15f x = (if f64_sign x then ''-'' else [])
      @ digits_of (scaled15 x div 10 ^ 15) @ ''.'' @ fixed_digits 15 (scaled15 x mod 10 ^ 15)"
  by (simp add: Sprintf_15f_def IsFinite_def)

lemma unsigned_Sprintf_15f:
  "IsFinite x \<Longrightarrow>
   unsigned_part (Sprintf_15f x) =
     digits_of (scaled15 x div 10 ^ 15) @ ''.'' @ fixed_digits 15 (scaled15 x mod 10 ^ 15)"
  using unsigned_digits [of "digits_of (scaled15 x div 10 ^ 15)"] digits_of_digits
  by (simp add: Sprintf_15f_finite) (simp add: unsigned_part_def)

lemma fixed15_Sprintf_15f: "IsFinite x \<Longrightarrow> fixed15 (Sprintf_15f x)"
  using digits_of_digits [of "scaled15 x div 10 ^ 15"]
    fixed_digits_digits [of 15 "scaled15 x mod 10 ^ 15"]
  by (simp add: fixed15_def unsigned_Sprintf_15f Let_def takeWhile_digits dropWhile_digits
        is_digit_def)

lemma digits_Sprintf_15f:
  "IsFinite x \<Longrightarrow>
   nat_of_digits (filter is_digit (Sprintf_15f x)) = scaled15 x"
proof -
  assume fin: "IsFinite x"
  let ?ip = "digits_of (scaled15 x div 10 ^ 15)"
  let ?fr = "fixed_digits 15 (scaled15 x mod 10 ^ 15)"
  have "filter is_digit (Sprintf_15f x) = ?ip @ ?fr"
    using digits_of_digits [of "scaled15 x div 10 ^ 15"]
      fixed_digits_digits [of 15 "scaled15 x mod 10 ^ 15"]
    by (simp add: Sprintf_15f_finite [OF fin] filter_digits is_digit_def)
  then have "nat_of_digits (filter is_digit (Sprintf_15f x))
               = (scaled15 x div 10 ^ 15) * 10 ^ 15 + scaled15 x mod 10 ^ 15"
    by (simp add: nat_of_digits_fixed nat_of_digits_of)
  then show ?thesis by simp
qed

lemma sign_Sprintf_15f:
  "IsFinite x \<Longrightarrow> (unsigned_part (Sprintf_15f x) = Sprintf_15f x) = (\<not> f64_sign x)"
  by (simp add: unsigned_Sprintf_15f) (simp add: Sprintf_15f_finite)

lemma value_Sprintf_15f:
  assumes "IsFinite x"
  shows "fixed15_value (Sprintf_15f x) =
     Some ((if f64_sign x then - 1 else 1) * (of_nat (scaled15 x) / 10 ^ 15))"
  by (simp add: fixed15_value_def fixed15_Sprintf_15f [OF assms] digits_Sprintf_15f [OF assms]
        sign_Sprintf_15f [OF assms])

lemma within_half_unit_Sprintf_15f:
  assumes "IsFinite x"
  shows "within_half_unit (Sprintf_15f x) x"
proof -
  have "\<bar>(of_nat (scaled15 x) :: rat) / 10 ^ 15 - f64_abs x\<bar> \<le> 1 / (2 * 10 ^ 15)"
    by (rule scaled15_close)
  moreover have "\<bar>- ((of_nat (scaled15 x) :: rat) / 10 ^ 15) + f64_abs x\<bar>
       = \<bar>(of_nat (scaled15 x) :: rat) / 10 ^ 15 - f64_abs x\<bar>"
    by (simp add: abs_minus_commute)
  ultimately show ?thesis
    by (simp add: within_half_unit_def value_Sprintf_15f [OF assms] f64_value_def)
qed

lemma Get_all_position:
  "Get_all (add_options w opts (position_vals w (LatLng a b))) ''position''
     = [Sprintf_15f a @ '','' @ Sprintf_15f b]"
proof -
  have "Get_all (add_options w opts (position_vals w (LatLng a b))) ''position''
          = Get_all (position_vals w (LatLng a b)) ''position''"
    by (simp add: add_options_resolved Get_all_add_other)
  then show ?thesis
    by (simp add: position_vals_eq Get_all_def Sprintf_position_def)
qed

text \<open>Evaluation of the examples.\<close>

lemma fixed_digits_numeral:
  "fixed_digits (numeral k) n = fixed_digits (pred_numeral k) (n div 10) @ [digit (n mod 10)]"
proof -
  have "numeral k = Suc (pred_numeral k)" by (rule numeral_eq_Suc)
  then show ?thesis by (simp only: fixed_digits.simps)
qed

lemma fixed_digits_one: "fixed_digits 1 n = [digit (n mod 10)]"
  by (simp add: One_nat_def)

lemmas f64_eval = Sprintf_15f_def IsNaN_def IsInf_def IsFinite_def f64_exp_def f64_frac_def
  f64_sign_def f64_mant_def f64_pow_def scaled15_def round_half_even_def Let_def
  digits_of.simps digit_def fixed_digits_numeral fixed_digits_one

lemma Sprintf_15f_lat: "Sprintf_15f lat_51_484463 = ''51.484462999999998''"
  by (simp add: f64_eval lat_51_484463_def)

lemma Sprintf_15f_lng: "Sprintf_15f lng_minus_0_195405 = ''-0.195405000000000''"
  by (simp add: f64_eval lng_minus_0_195405_def)

lemma Sprintf_15f_small: "Sprintf_15f small_1e_minus_20 = ''0.000000000000000''"
  by (simp add: f64_eval small_1e_minus_20_def)

lemma Sprintf_15f_NaN: "Sprintf_15f quiet_NaN = ''NaN''"
  by (simp add: f64_eval quiet_NaN_def)

lemma finite_examples: "IsFinite lat_51_484463 \<and> IsFinite lng_minus_0_195405"
  by (simp add: f64_eval lat_51_484463_def lng_minus_0_195405_def)

lemma literals_nearest:
  "\<bar>f64_value lat_51_484463 - 51484463 / 1000000\<bar> < 1 / 2 ^ 48
   \<and> \<bar>f64_value lng_minus_0_195405 - (- 195405 / 1000000)\<bar> < 1 / 2 ^ 56"
  by (simp add: f64_value_def f64_abs_def f64_eval lat_51_484463_def lng_minus_0_195405_def)

text \<open>
  Claim C8, as amended. For every pair of finite \<open>float64\<close> values, the \<open>position\<close>
  parameter in the query of \<open>Position\<close> and of \<open>LangsPos\<close> is the two values printed
  by \<open>%.15f\<close> with a comma between them. Each text is an optional minus sign, at least
  one digit, a point and exactly fifteen digits, with nothing else in it, and the number
  it denotes is at most \<open>5 * 10 ^ - 16\<close> away from the value printed.
\<close>
theorem position_parameter_of_finite_coordinates:
  assumes "IsFinite a" and "IsFinite b"
  shows "Get_all (add_options w opts (position_vals w (LatLng a b))) ''position''
           = [Sprintf_15f a @ '','' @ Sprintf_15f b]
    \<and> requests (snd (Position E w (LatLng a b) opts)) =
        [\<lparr>Method = ''GET'',
          URL = endpoint @ ''/position'' @ ''?''
                  @ Encode (add_options w opts (position_vals w (LatLng a b))),
          Header = [(''Accept'', ''application/json'')]\<rparr>]
    \<and> requests (snd (LangsPos E w (LatLng a b) opts)) =
        [\<lparr>Method = ''GET'',
          URL = endpoint @ ''/get-languages'' @ ''?''
                  @ Encode (add_options w opts (position_vals w (LatLng a b))),
          Header = [(''Accept'', ''application/json'')]\<rparr>]
    \<and> fixed15 (Sprintf_15f a) \<and> fixed15 (Sprintf_15f b)
    \<and> within_half_unit (Sprintf_15f a) a \<and> within_half_unit (Sprintf_15f b) b"
proof -
  have reqs: "requests (snd (Position E w (LatLng a b) opts)) =
        [\<lparr>Method = ''GET'',
          URL = endpoint @ ''/position'' @ ''?''
                  @ Encode (add_options w opts (position_vals w (LatLng a b))),
          Header = [(''Accept'', ''application/json'')]\<rparr>]"
    "requests (snd (LangsPos E w (LatLng a b) opts)) =
        [\<lparr>Method = ''GET'',
          URL = endpoint @ ''/get-languages'' @ ''?''
                  @ Encode (add_options w opts (position_vals w (LatLng a b))),
          Header = [(''Accept'', ''application/json'')]\<rparr>]"
    by (simp_all only: requests_ops append_assoc)
  show ?thesis
    using Get_all_position [of w opts a b] reqs
      fixed15_Sprintf_15f [OF assms(1)] fixed15_Sprintf_15f [OF assms(2)]
      within_half_unit_Sprintf_15f [OF assms(1)] within_half_unit_Sprintf_15f [OF assms(2)]
    by (intro conjI)
qed

text \<open>The coordinate of the second scenario of the specification.\<close>

theorem position_parameter_of_finite_coordinates_witness:
  "IsFinite lat_51_484463 \<and> IsFinite lng_minus_0_195405
   \<and> Get_all (add_options KEY_client None
        (position_vals KEY_client (LatLng lat_51_484463 lng_minus_0_195405))) ''position''
       = [''51.484462999999998,-0.195405000000000'']
   \<and> fixed15 ''51.484462999999998'' \<and> fixed15 ''-0.195405000000000''
   \<and> within_half_unit ''51.484462999999998'' lat_51_484463
   \<and> within_half_unit ''-0.195405000000000'' lng_minus_0_195405"
proof -
  have a: "IsFinite lat_51_484463" and b: "IsFinite lng_minus_0_195405"
    using finite_examples by simp_all
  note t = position_parameter_of_finite_coordinates
      [OF a b, where w = KEY_client and opts = None and E = refused]
  from t have p: "Get_all (add_options KEY_client None
        (position_vals KEY_client (LatLng lat_51_484463 lng_minus_0_195405))) ''position''
       = [Sprintf_15f lat_51_484463 @ '','' @ Sprintf_15f lng_minus_0_195405]"
    by (elim conjE)
  from t have f1: "fixed15 (Sprintf_15f lat_51_484463)"
    by (elim conjE)
  from t have f2: "fixed15 (Sprintf_15f lng_minus_0_195405)"
    by (elim conjE)
  from t have h1: "within_half_unit (Sprintf_15f lat_51_484463) lat_51_484463"
    by (elim conjE)
  from t have h2: "within_half_unit (Sprintf_15f lng_minus_0_195405) lng_minus_0_195405"
    by (elim conjE)
  show ?thesis
    using a b p f1 f2 h1 h2 unfolding Sprintf_15f_lat Sprintf_15f_lng
    by simp
qed

text \<open>
  Claim C8 as it is stated fails on a pair with a NaN: the parameter is
  \<open>NaN,0.000000000000000\<close>, and \<open>NaN\<close> is not fixed-point text. The second value of
  the pair, the \<open>float64\<close> of \<open>1e-20\<close>, is positive and prints as zero.
\<close>
theorem position_parameter_counterexample:
  "Get_all (add_options KEY_client None
      (position_vals KEY_client (LatLng quiet_NaN small_1e_minus_20))) ''position''
     = [''NaN,0.000000000000000'']
   \<and> \<not> fixed15 ''NaN''
   \<and> IsNaN quiet_NaN
   \<and> fixed15_value ''0.000000000000000'' = Some 0
   \<and> 0 < f64_value small_1e_minus_20"
proof -
  have "\<not> fixed15 ''NaN''"
    by (simp add: fixed15_def unsigned_part_def is_digit_def)
  moreover have "IsNaN quiet_NaN"
    by (simp add: f64_eval quiet_NaN_def)
  moreover have "fixed15_value ''0.000000000000000'' = Some 0"
    by (simp add: fixed15_value_def fixed15_def unsigned_part_def is_digit_def
          nat_of_digits_def)
  moreover have "0 < f64_value small_1e_minus_20"
    by (simp add: f64_value_def f64_abs_def f64_eval small_1e_minus_20_def)
  ultimately show ?thesis
    by (simp add: Get_all_position Sprintf_15f_NaN Sprintf_15f_small)
qed

section \<open>The request of a position lookup\<close>

lemma TrimSpace_KEY: "TrimSpace ''KEY'' \<noteq> []"
  by code_simp

lemma New_KEY: "New ''KEY'' dflt = Inr w \<Longrightarrow> apikey w = ''KEY''"
  by (auto simp: New_def split: if_splits option.splits)

lemma position_url_de_corners:
  "apikey w = ''KEY'' \<Longrightarrow>
   requests (snd (Position E w (LatLng lat_51_484463 lng_minus_0_195405)
      (Some \<lparr>Lang = ''de'', Corners = True\<rparr>))) =
     [\<lparr>Method = ''GET'',
       URL = ''https://api.what3words.com/position?corners=true&key=KEY&lang=de&position=51.484462999999998%2C-0.195405000000000'',
       Header = [(''Accept'', ''application/json'')]\<rparr>]"
  by (simp add: requests_ops add_options_resolved spec_resolved_options_def position_vals_eq
        add_position spec_lang_def Encode_def encode_pairs_def Get_all_def endpoint_def
        Sprintf_position_def Sprintf_15f_lat Sprintf_15f_lng
        QueryEscape_def escape_byte_def shouldEscape_def upperhex_def)

text \<open>
  Claim C4, as amended. On a client that \<open>New\<close> made for the key \<open>KEY\<close>, \<open>Position\<close>
  with the \<open>float64\<close> values of \<open>51.484463\<close> and \<open>-0.195405\<close> and the options \<open>de\<close>
  with corners sends exactly one request, a \<open>GET\<close> of
  \<open>https://api.what3words.com/position?corners=true&key=KEY&lang=de&position=51.484462999999998%2C-0.195405000000000\<close>:
  the parameters in the sorted order of their keys, the comma escaped, and the latitude
  as the binary value nearest to \<open>51.484463\<close> prints with fifteen fraction digits.
\<close>
theorem position_request_of_scenario_2:
  assumes "New ''KEY'' dflt = Inr w"
  shows "requests (snd (Position E w (LatLng lat_51_484463 lng_minus_0_195405)
      (Some \<lparr>Lang = ''de'', Corners = True\<rparr>))) =
     [\<lparr>Method = ''GET'',
       URL = ''https://api.what3words.com/position?corners=true&key=KEY&lang=de&position=51.484462999999998%2C-0.195405000000000'',
       Header = [(''Accept'', ''application/json'')]\<rparr>]
    \<and> \<bar>f64_value lat_51_484463 - 51484463 / 1000000\<bar> < 1 / 2 ^ 48
    \<and> \<bar>f64_value lng_minus_0_195405 - (- 195405 / 1000000)\<bar> < 1 / 2 ^ 56"
  using position_url_de_corners [OF New_KEY [OF assms]] literals_nearest
  by (intro conjI) simp_all

text \<open>The client of \<open>New("KEY", nil)\<close>, with no network behind it.\<close>

theorem position_request_of_scenario_2_witness:
  "New ''KEY'' None = Inr KEY_client
   \<and> requests (snd (Position refused KEY_client (LatLng lat_51_484463 lng_minus_0_195405)
      (Some \<lparr>Lang = ''de'', Corners = True\<rparr>))) =
     [\<lparr>Method = ''GET'',
       URL = ''https://api.what3words.com/position?corners=true&key=KEY&lang=de&position=51.484462999999998%2C-0.195405000000000'',
       Header = [(''Accept'', ''application/json'')]\<rparr>]"
proof -
  have n: "New ''KEY'' None = Inr KEY_client"
    using TrimSpace_KEY by (simp add: New_def KEY_client_def)
  from position_request_of_scenario_2 [OF n, where E = refused] n show ?thesis
    by (elim conjE) simp
qed

text \<open>
  Claim C4 as it is stated fails: the request of that call is not the one whose URL
  ends in \<open>/position?key=KEY&position=51.484463000000000,-0.195405000000000&lang=de&corners=true\<close>.
\<close>

theorem position_request_of_scenario_2_counterexample:
  "New ''KEY'' None = Inr KEY_client
   \<and> requests (snd (Position refused KEY_client (LatLng lat_51_484463 lng_minus_0_195405)
      (Some \<lparr>Lang = ''de'', Corners = True\<rparr>))) \<noteq>
     [\<lparr>Method = ''GET'',
       URL = endpoint @ ''/position?key=KEY&position=51.484463000000000,-0.195405000000000&lang=de&corners=true'',
       Header = [(''Accept'', ''application/json'')]\<rparr>]"
proof -
  have n: "New ''KEY'' None = Inr KEY_client"
    using TrimSpace_KEY by (simp add: New_def KEY_client_def)
  have "apikey KEY_client = ''KEY''" by (simp add: KEY_client_def)
  from position_url_de_corners [OF this, of refused] n show ?thesis
    by (simp add: endpoint_def)
qed

end
